theory Spec2Isabelle
  imports Complex_Main
begin

section \<open>JavaScript values\<close>

text \<open>
  The front end is JavaScript. Its values are embedded as follows.

  \<^item> A string is the list of its UTF-16 code units, which is what \<open>String.prototype\<close> and
    regular expressions without the \<open>u\<close> flag work on. \<open>lit\<close> turns an ASCII literal
    into such a list; the rupee sign U+20B9 is the single code unit 8377.
  \<^item> A Number is a finite value, one of the two infinities, or NaN. Finite values are exact
    rationals: rounding to binary64, overflow to Infinity and the sign of zero are not
    modelled.
  \<^item> A payload is a JSON tree; looking a missing property up gives \<open>undefined\<close>. An object
    is the list of its properties (a parsed JSON object has each key once).
\<close>

type_synonym jsstr = "nat list"

definition lit :: "string \<Rightarrow> jsstr" where
  "lit s = map of_char s"

definition rupee :: nat where
  "rupee = 8377"

datatype jsnum = Fin rat | PInf | NInf | NaN

datatype jsval =
    JUndefined
  | JNull
  | JBool bool
  | JNumber jsnum
  | JString jsstr
  | JArray "jsval list"
  | JObject "(jsstr \<times> jsval) list"

subsection \<open>Number arithmetic\<close>

definition inf_of_sign :: "rat \<Rightarrow> jsnum" where
  "inf_of_sign a = (if 0 < a then PInf else if a < 0 then NInf else NaN)"

fun js_neg :: "jsnum \<Rightarrow> jsnum" where
  "js_neg (Fin a) = Fin (- a)"
| "js_neg PInf = NInf"
| "js_neg NInf = PInf"
| "js_neg NaN = NaN"

fun js_mul :: "jsnum \<Rightarrow> jsnum \<Rightarrow> jsnum" where
  "js_mul NaN _ = NaN"
| "js_mul _ NaN = NaN"
| "js_mul (Fin a) (Fin b) = Fin (a * b)"
| "js_mul (Fin a) PInf = inf_of_sign a"
| "js_mul (Fin a) NInf = inf_of_sign (- a)"
| "js_mul PInf (Fin b) = inf_of_sign b"
| "js_mul NInf (Fin b) = inf_of_sign (- b)"
| "js_mul PInf PInf = PInf"
| "js_mul NInf NInf = PInf"
| "js_mul PInf NInf = NInf"
| "js_mul NInf PInf = NInf"

fun js_add :: "jsnum \<Rightarrow> jsnum \<Rightarrow> jsnum" where
  "js_add NaN _ = NaN"
| "js_add _ NaN = NaN"
| "js_add (Fin a) (Fin b) = Fin (a + b)"
| "js_add PInf NInf = NaN"
| "js_add NInf PInf = NaN"
| "js_add PInf _ = PInf"
| "js_add _ PInf = PInf"
| "js_add NInf _ = NInf"
| "js_add _ NInf = NInf"

definition js_sub :: "jsnum \<Rightarrow> jsnum \<Rightarrow> jsnum" where
  "js_sub a b = js_add a (js_neg b)"

text \<open>\<open>a > b\<close> and \<open>a < b\<close>: false as soon as one side is NaN.\<close>

fun js_gt :: "jsnum \<Rightarrow> jsnum \<Rightarrow> bool" where
  "js_gt NaN _ = False"
| "js_gt _ NaN = False"
| "js_gt (Fin a) (Fin b) = (b < a)"
| "js_gt PInf PInf = False"
| "js_gt PInf _ = True"
| "js_gt NInf _ = False"
| "js_gt (Fin a) NInf = True"
| "js_gt (Fin a) PInf = False"

definition js_lt :: "jsnum \<Rightarrow> jsnum \<Rightarrow> bool" where
  "js_lt a b = js_gt b a"

subsection \<open>Truthiness, property access and \<open>||\<close>\<close>

fun truthy_num :: "jsnum \<Rightarrow> bool" where
  "truthy_num (Fin a) = (a \<noteq> 0)"
| "truthy_num NaN = False"
| "truthy_num _ = True"

fun truthy :: "jsval \<Rightarrow> bool" where
  "truthy JUndefined = False"
| "truthy JNull = False"
| "truthy (JBool b) = b"
| "truthy (JNumber n) = truthy_num n"
| "truthy (JString s) = (s \<noteq> [])"
| "truthy (JArray _) = True"
| "truthy (JObject _) = True"

text \<open>
  \<open>v.k\<close> for a value that is neither \<open>null\<close> nor \<open>undefined\<close> (on those the access
  throws, which the callers below handle before calling \<open>get\<close>). None of the keys the
  program reads is a property of a primitive's or an array's prototype.
\<close>

fun get :: "jsval \<Rightarrow> jsstr \<Rightarrow> jsval" where
  "get (JObject kvs) k = (case map_of kvs k of Some v \<Rightarrow> v | None \<Rightarrow> JUndefined)"
| "get _ k = JUndefined"

text \<open>\<open>x1 || x2 || ... || d\<close>: the first truthy operand, or the last one.\<close>

fun ors :: "jsval list \<Rightarrow> jsval \<Rightarrow> jsval" where
  "ors [] d = d"
| "ors (x # xs) d = (if truthy x then x else ors xs d)"

text \<open>\<open>raw.k1 || raw.k2 || ... || d\<close>\<close>

definition pick :: "jsval \<Rightarrow> string list \<Rightarrow> jsval \<Rightarrow> jsval" where
  "pick raw ks d = ors (map (\<lambda>k. get raw (lit k)) ks) d"

text \<open>\<open>n || 0\<close> on a Number.\<close>

definition num_or :: "jsnum \<Rightarrow> jsnum \<Rightarrow> jsnum" where
  "num_or n d = (if truthy_num n then n else d)"

subsection \<open>Strings: character classes, \<open>parseFloat\<close>\<close>

text \<open>The white space and line terminators matched by \<open>\s\<close>, \<open>trim\<close> and \<open>parseFloat\<close>.\<close>

definition isWhiteSpace :: "nat \<Rightarrow> bool" where
  "isWhiteSpace c =
     (c \<in> set [9, 10, 11, 12, 13, 32, 160, 5760, 8232, 8233, 8239, 8287, 12288, 65279]
      \<or> (8192 \<le> c \<and> c \<le> 8202))"

definition isDigit :: "nat \<Rightarrow> bool" where
  "isDigit c = (48 \<le> c \<and> c \<le> 57)"

definition digits_val :: "jsstr \<Rightarrow> nat" where
  "digits_val ds = foldl (\<lambda>a c. 10 * a + (c - 48)) 0 ds"

text \<open>
  The exponent part of a decimal literal: \<open>e\<close> or \<open>E\<close>, an optional sign and at least one
  digit; anything else is not part of the literal and the exponent is 0.
\<close>

definition exponent :: "jsstr \<Rightarrow> int" where
  "exponent r =
     (case r of
        [] \<Rightarrow> 0
      | c # r1 \<Rightarrow>
          if c = 101 \<or> c = 69 then
            (let neg = (case r1 of [] \<Rightarrow> False | d # _ \<Rightarrow> d = 45);
                 r2 = (case r1 of [] \<Rightarrow> [] | d # r' \<Rightarrow> if d = 45 \<or> d = 43 then r' else r1);
                 ds = takeWhile isDigit r2
             in if ds = [] then 0
                else if neg then - int (digits_val ds) else int (digits_val ds))
          else 0)"

definition scale10 :: "rat \<Rightarrow> int \<Rightarrow> rat" where
  "scale10 m e = (if 0 \<le> e then m * 10 ^ nat e else m / 10 ^ nat (- e))"

text \<open>
  \<open>parseFloat\<close> on a string: leading white space is skipped, then the longest prefix that
  is a decimal literal (a sign, then \<open>Infinity\<close> or digits with an optional fraction and
  exponent) is read; without such a prefix the result is NaN.
\<close>

definition parseFloat_str :: "jsstr \<Rightarrow> jsnum" where
  "parseFloat_str s =
     (let t = dropWhile isWhiteSpace s;
          neg = (case t of [] \<Rightarrow> False | c # _ \<Rightarrow> c = 45);
          u = (case t of [] \<Rightarrow> [] | c # r \<Rightarrow> if c = 45 \<or> c = 43 then r else t)
      in if take 8 u = lit ''Infinity'' then (if neg then NInf else PInf)
         else
           (let ip = takeWhile isDigit u;
                r1 = dropWhile isDigit u;
                dot = (case r1 of [] \<Rightarrow> False | c # _ \<Rightarrow> c = 46);
                fp = (if dot then takeWhile isDigit (tl r1) else []);
                r2 = (if dot then dropWhile isDigit (tl r1) else r1)
            in if ip = [] \<and> fp = [] then NaN
               else
                 (let m = of_nat (digits_val (ip @ fp)) / 10 ^ length fp;
                      v = scale10 m (exponent r2)
                  in Fin (if neg then - v else v))))"

text \<open>
  \<open>parseFloat\<close> on any value converts it to a string first. A Number prints as a literal
  that reads back as itself; an array prints its elements joined by commas, so only its
  first element can contribute a literal; \<open>null\<close>, \<open>undefined\<close>, booleans and plain
  objects print as text that starts no literal.
\<close>

fun parseFloat :: "jsval \<Rightarrow> jsnum" where
  "parseFloat (JNumber n) = n"
| "parseFloat (JString s) = parseFloat_str s"
| "parseFloat (JArray (x # xs)) = parseFloat x"
| "parseFloat _ = NaN"

text \<open>\<open>s.replace(/[...]/g, '')\<close> for a character class: the matching code units are dropped.\<close>

definition strip :: "(nat \<Rightarrow> bool) \<Rightarrow> jsstr \<Rightarrow> jsstr" where
  "strip cls s = filter (\<lambda>c. \<not> cls c) s"

definition trim :: "jsstr \<Rightarrow> jsstr" where
  "trim s = rev (dropWhile isWhiteSpace (rev (dropWhile isWhiteSpace s)))"

text \<open>
  Case mapping is modelled on the ASCII letters; other code units are left as they are.
  No code unit outside ASCII maps to \<open>c\<close>, \<open>r\<close> or \<open>l\<close>, the letters tested below.
\<close>

definition lower :: "nat \<Rightarrow> nat" where
  "lower c = (if 65 \<le> c \<and> c \<le> 90 then c + 32 else c)"

definition upper :: "nat \<Rightarrow> nat" where
  "upper c = (if 97 \<le> c \<and> c \<le> 122 then c - 32 else c)"

definition toLowerCase :: "jsstr \<Rightarrow> jsstr" where
  "toLowerCase s = map lower s"

definition toUpperCase :: "jsstr \<Rightarrow> jsstr" where
  "toUpperCase s = map upper s"

fun includes_str :: "jsstr \<Rightarrow> jsstr \<Rightarrow> bool" where
  "includes_str [] p = (p = [])"
| "includes_str (c # s) p = (take (length p) (c # s) = p \<or> includes_str s p)"

text \<open>\<open>s.replace(/p/i, '')\<close> for a lower-case ASCII word \<open>p\<close>: the first match is removed.\<close>

fun replace_first_ci :: "jsstr \<Rightarrow> jsstr \<Rightarrow> jsstr" where
  "replace_first_ci p [] = []"
| "replace_first_ci p (c # s) =
     (if map lower (take (length p) (c # s)) = p then drop (length p) (c # s)
      else c # replace_first_ci p s)"

text \<open>\<open>String(v)\<close> for a string or a boolean, the only values it is applied to below.\<close>

fun String_of :: "jsval \<Rightarrow> jsstr" where
  "String_of (JString s) = s"
| "String_of (JBool b) = (if b then lit ''true'' else lit ''false'')"
| "String_of _ = []"

section \<open>Quote Normalizer: numeric resolution\<close>

text \<open>
  \<open>parseNum\<close> inside \<open>utils.parseStock\<close> (app.js). The character class is
  \<open>[R,%+\s,]\<close> (\<open>R\<close> the rupee sign).
\<close>

definition cls_parseStock :: "nat \<Rightarrow> bool" where
  "cls_parseStock c = (c = rupee \<or> c = 44 \<or> c = 37 \<or> c = 43 \<or> isWhiteSpace c)"

definition parseNum :: "jsval \<Rightarrow> jsnum" where
  "parseNum val =
     (if \<not> truthy val then Fin 0
      else case val of
        JNumber n \<Rightarrow> n
      | JObject _ \<Rightarrow> parseFloat (pick val [''value'', ''price'', ''ltp''] (JNumber (Fin 0)))
      | JArray _ \<Rightarrow> parseFloat (pick val [''value'', ''price'', ''ltp''] (JNumber (Fin 0)))
      | _ \<Rightarrow> num_or (parseFloat_str (strip cls_parseStock (String_of val))) (Fin 0))"

text \<open>
  \<open>parseNum\<close> inside \<open>showStockDetail\<close> (app.js). The character class is
  \<open>[R,%+\s,Cr]\<close> (\<open>R\<close> the rupee sign) with the flags \<open>gi\<close>, so it matches \<open>C\<close>, \<open>c\<close>, \<open>R\<close> and \<open>r\<close> too.
\<close>

definition cls_detail :: "nat \<Rightarrow> bool" where
  "cls_detail c =
     (c = rupee \<or> c = 44 \<or> c = 37 \<or> c = 43 \<or> isWhiteSpace c
      \<or> c = 67 \<or> c = 99 \<or> c = 82 \<or> c = 114)"

definition parseNum_detail :: "jsval \<Rightarrow> jsnum" where
  "parseNum_detail val =
     (if \<not> truthy val then Fin 0
      else case val of
        JNumber n \<Rightarrow> n
      | JObject _ \<Rightarrow>
          parseFloat (pick val [''value'', ''raw'', ''amount'', ''price'', ''ltp''] (JNumber (Fin 0)))
      | JArray _ \<Rightarrow>
          parseFloat (pick val [''value'', ''raw'', ''amount'', ''price'', ''ltp''] (JNumber (Fin 0)))
      | _ \<Rightarrow>
          (let str = trim (strip cls_detail (String_of val))
           in if includes_str (toLowerCase str) (lit ''cr'')
              then js_mul (parseFloat_str (replace_first_ci (lit ''cr'') str)) (Fin 10000000)
              else if includes_str (toLowerCase str) (lit ''l'')
              then js_mul (parseFloat_str (replace_first_ci (lit ''l'') str)) (Fin 100000)
              else num_or (parseFloat_str str) (Fin 0)))"

section \<open>Quote Normalizer: records\<close>

text \<open>
  The team builder and the ledger read three properties of a stock: \<open>name\<close>, \<open>symbol\<close>
  and \<open>price\<close>. The normalizers return objects that have these and more.
\<close>

record stock =
  name :: jsval
  symbol :: jsval
  price :: jsnum

text \<open>
  The object returned by \<open>utils.parseStock\<close> (app.js). Its \<open>id\<close> is the string
  \<open>symbol + '_' + Date.now()\<close>; it is kept as the pair of the symbol and the clock reading
  it is built from.
\<close>

record quote = stock +
  id_field :: "jsval \<times> nat"
  change :: jsnum
  volume :: jsnum
  high :: jsnum
  low :: jsnum
  marketCap :: jsnum
  pe :: jsnum
  high52 :: jsnum
  low52 :: jsnum
  sector :: jsval
  raw :: jsval

datatype error = TypeError

text \<open>
  \<open>name.substring(0, 6).toUpperCase().replace(/\s/g, '')\<close>. Only a string has a
  \<open>substring\<close> method: on any other value the call throws.
\<close>

definition derive_symbol :: "jsval \<Rightarrow> error + jsval" where
  "derive_symbol nm =
     (case nm of
        JString n \<Rightarrow> Inr (JString (strip isWhiteSpace (toUpperCase (take 6 n))))
      | _ \<Rightarrow> Inl TypeError)"

text \<open>\<open>utils.parseStock\<close> (app.js); \<open>now\<close> is what \<open>Date.now()\<close> returns.\<close>

definition parseStock :: "nat \<Rightarrow> jsval \<Rightarrow> error + quote option" where
  "parseStock now rw =
     (if \<not> truthy rw then Inr None
      else
        (let nm = pick rw [''company_name'', ''companyName'', ''name'', ''longName'',
                     ''shortName'', ''stock_name'', ''scrip_name'', ''symbol'']
                    (JString (lit ''Unknown''));
             s0 = pick rw [''symbol'', ''ticker'', ''nseSymbol'', ''bseSymbol'', ''stock_id'']
                    JUndefined
         in case (if truthy s0 then Inr s0 else derive_symbol nm) of
              Inl e \<Rightarrow> Inl e
            | Inr smb \<Rightarrow>
                Inr (Some \<lparr>
                  name = nm,
                  symbol = smb,
                  price = parseNum (pick rw [''currentPrice'', ''current_price'', ''price'',
                            ''ltp'', ''lastPrice'', ''close''] (JNumber (Fin 0))),
                  id_field = (smb, now),
                  change = parseNum (pick rw [''pChange'', ''change_percent'', ''changePercent'',
                            ''percent_change''] (JNumber (Fin 0))),
                  volume = parseNum (pick rw [''volume'', ''tradedVolume'', ''totalTradedVolume'']
                            (JNumber (Fin 0))),
                  high = parseNum (pick rw [''high'', ''dayHigh''] (JNumber (Fin 0))),
                  low = parseNum (pick rw [''low'', ''dayLow''] (JNumber (Fin 0))),
                  marketCap = parseNum (pick rw [''marketCap'', ''market_cap''] (JNumber (Fin 0))),
                  pe = parseNum (pick rw [''pe'', ''peRatio''] (JNumber (Fin 0))),
                  high52 = parseNum (pick rw [''high52'', ''week52High'', ''yearHigh'']
                            (JNumber (Fin 0))),
                  low52 = parseNum (pick rw [''low52'', ''week52Low'', ''yearLow'']
                            (JNumber (Fin 0))),
                  sector = pick rw [''sector'', ''industry''] (JString []),
                  raw = rw \<rparr>)))"

subsection \<open>The normalizer of stockquest.js\<close>

text \<open>
  \<open>utils.parsePrice\<close> and \<open>utils.parseChange\<close> (stockquest.js). The character class of
  \<open>parsePrice\<close> holds, as the file has it, the code units U+201A, U+00C7 and U+03C0, the
  comma and \<open>\s\<close>.
\<close>

definition cls_parsePrice :: "nat \<Rightarrow> bool" where
  "cls_parsePrice c = (c = 8218 \<or> c = 199 \<or> c = 960 \<or> c = 44 \<or> isWhiteSpace c)"

definition parsePrice :: "jsval \<Rightarrow> jsnum" where
  "parsePrice priceData =
     (if \<not> truthy priceData then Fin 0
      else case priceData of
        JNumber n \<Rightarrow> n
      | JObject _ \<Rightarrow> parseFloat (pick priceData [''value'', ''price'', ''ltp''] (JNumber (Fin 0)))
      | JArray _ \<Rightarrow> parseFloat (pick priceData [''value'', ''price'', ''ltp''] (JNumber (Fin 0)))
      | _ \<Rightarrow> num_or (parseFloat_str (strip cls_parsePrice (String_of priceData))) (Fin 0))"

definition cls_parseChange :: "nat \<Rightarrow> bool" where
  "cls_parseChange c = (c = 37 \<or> c = 43 \<or> isWhiteSpace c)"

definition parseChange :: "jsval \<Rightarrow> jsnum" where
  "parseChange changeData =
     (if \<not> truthy changeData then Fin 0
      else case changeData of
        JNumber n \<Rightarrow> n
      | JObject _ \<Rightarrow>
          parseFloat (pick changeData [''value'', ''percent'', ''pChange''] (JNumber (Fin 0)))
      | JArray _ \<Rightarrow>
          parseFloat (pick changeData [''value'', ''percent'', ''pChange''] (JNumber (Fin 0)))
      | _ \<Rightarrow> num_or (parseFloat_str (strip cls_parseChange (String_of changeData))) (Fin 0))"

text \<open>
  The object returned by \<open>utils.extractStockData\<close> (stockquest.js); the fields it has
  beyond \<open>name\<close>, \<open>symbol\<close> and \<open>price\<close> carry the prefix \<open>sq_\<close> here.
\<close>

record sq_quote = stock +
  sq_id :: "jsval \<times> nat"
  sq_change :: jsnum
  sq_changeAbs :: jsnum
  sq_volume :: jsval
  sq_high :: jsnum
  sq_low :: jsnum
  sq_sector :: jsval
  sq_marketCap :: jsval
  sq_pe :: jsval
  sq_high52 :: jsval
  sq_low52 :: jsval
  sq_raw :: jsval

text \<open>
  \<open>utils.extractStockData\<close> has no guard on its argument: reading a property of
  \<open>null\<close> or \<open>undefined\<close> throws.
\<close>

definition extractStockData :: "nat \<Rightarrow> jsval \<Rightarrow> error + sq_quote" where
  "extractStockData now rawStock =
     (if rawStock = JNull \<or> rawStock = JUndefined then Inl TypeError
      else
        (let nm = pick rawStock [''company_name'', ''companyName'', ''name'', ''longName'',
                     ''shortName'', ''symbol''] (JString (lit ''Unknown''));
             s0 = pick rawStock [''symbol'', ''ticker'', ''nseSymbol'', ''bseSymbol'',
                     ''stock_id''] JUndefined
         in case (if truthy s0 then Inr s0 else derive_symbol nm) of
              Inl e \<Rightarrow> Inl e
            | Inr smb \<Rightarrow>
                Inr \<lparr>
                  name = nm,
                  symbol = smb,
                  price = parsePrice (pick rawStock [''currentPrice'', ''current_price'',
                            ''price'', ''ltp'', ''lastPrice'', ''close'', ''previousClose'']
                            (JNumber (Fin 0))),
                  sq_id = (smb, now),
                  sq_change = parseChange (pick rawStock [''pChange'', ''change_percent'',
                            ''changePercent'', ''percent_change'', ''change''] (JNumber (Fin 0))),
                  sq_changeAbs = parsePrice (pick rawStock [''change'', ''priceChange'',
                            ''dayChange''] (JNumber (Fin 0))),
                  sq_volume = pick rawStock [''volume'', ''tradedVolume'', ''totalTradedVolume'',
                            ''traded_volume''] (JNumber (Fin 0)),
                  sq_high = parsePrice (pick rawStock [''high'', ''dayHigh'', ''high52'']
                            (JNumber (Fin 0))),
                  sq_low = parsePrice (pick rawStock [''low'', ''dayLow'', ''low52'']
                            (JNumber (Fin 0))),
                  sq_sector = pick rawStock [''sector'', ''industry'', ''sector_name''] (JString []),
                  sq_marketCap = pick rawStock [''marketCap'', ''market_cap'', ''mcap'']
                            (JNumber (Fin 0)),
                  sq_pe = pick rawStock [''pe'', ''peRatio'', ''pe_ratio''] (JNumber (Fin 0)),
                  sq_high52 = pick rawStock [''high52'', ''week52High'', ''yearHigh'']
                            (JNumber (Fin 0)),
                  sq_low52 = pick rawStock [''low52'', ''week52Low'', ''yearLow'']
                            (JNumber (Fin 0)),
                  sq_raw = rawStock \<rparr>))"

subsection \<open>The normalizer of firestore.js\<close>

text \<open>
  \<open>StockAPI.parseNumber\<close> and \<open>StockAPI.normalizeStockData\<close> (firestore.js).
  \<open>parseNumber\<close> calls itself on the nested value of an object. Its character class
  holds, as the file has it, the code units U+00E2, U+201A and U+00B9, the comma, \<open>%\<close>,
  \<open>+\<close> and \<open>\s\<close>.
\<close>

definition cls_parseNumber :: "nat \<Rightarrow> bool" where
  "cls_parseNumber c =
     (c = 226 \<or> c = 8218 \<or> c = 185 \<or> c = 44 \<or> c = 37 \<or> c = 43 \<or> isWhiteSpace c)"

text \<open>The measure that decreases along the recursion of \<open>parseNumber\<close>.\<close>

definition depth_measure :: "jsval \<Rightarrow> nat" where
  "depth_measure v =
     (case v of JObject _ \<Rightarrow> Suc (size v) | JArray _ \<Rightarrow> Suc (size v) | _ \<Rightarrow> 0)"

function parseNumber :: "jsval \<Rightarrow> jsnum" where
  "parseNumber v =
     (if \<not> truthy v then Fin 0
      else case v of
        JNumber n \<Rightarrow> n
      | JObject _ \<Rightarrow> parseNumber (pick v [''value'', ''price'', ''ltp''] (JNumber (Fin 0)))
      | JArray _ \<Rightarrow> parseNumber (pick v [''value'', ''price'', ''ltp''] (JNumber (Fin 0)))
      | _ \<Rightarrow> num_or (parseFloat_str (strip cls_parseNumber (String_of v))) (Fin 0))"
  by pat_completeness auto
termination
proof (relation "measure depth_measure")
  show "wf (measure depth_measure)" by simp
next
  fix v :: jsval and kvs
  assume "\<not> \<not> truthy v" and v: "v = JObject kvs"
  let ?ks = "[''value'', ''price'', ''ltp'']"
  let ?p = "pick (JObject kvs) ?ks (JNumber (Fin 0))"
  have member: "size x < size (JObject kvs)" if "(k, x) \<in> set kvs" for k x
    using that by (induction kvs) auto
  have found: "(k, get (JObject kvs) k) \<in> set kvs" if "truthy (get (JObject kvs) k)" for k
    using that by (auto split: option.splits dest: map_of_SomeD)
  have picked: "pick (JObject kvs) ks d = d \<or> (\<exists>k. (k, pick (JObject kvs) ks d) \<in> set kvs)"
    for ks d
  proof (induction ks)
    case Nil
    then show ?case by (simp add: pick_def)
  next
    case (Cons k ks)
    show ?case
    proof (cases "truthy (get (JObject kvs) (lit k))")
      case True
      then have "pick (JObject kvs) (k # ks) d = get (JObject kvs) (lit k)"
        by (simp add: pick_def)
      with found[OF True] show ?thesis by auto
    next
      case False
      then have "pick (JObject kvs) (k # ks) d = pick (JObject kvs) ks d"
        by (simp add: pick_def)
      with Cons show ?thesis by simp
    qed
  qed
  have le: "depth_measure x \<le> Suc (size x)" for x
    by (cases x) (simp_all add: depth_measure_def)
  have "depth_measure ?p < depth_measure (JObject kvs)"
  proof (cases "?p = JNumber (Fin 0)")
    case True
    then show ?thesis by (simp add: depth_measure_def)
  next
    case False
    then obtain k where "(k, ?p) \<in> set kvs" using picked[of ?ks "JNumber (Fin 0)"] by blast
    then have "size ?p < size (JObject kvs)" by (rule member)
    then show ?thesis using le[of ?p] by (simp add: depth_measure_def)
  qed
  then show "(pick v ?ks (JNumber (Fin 0)), v) \<in> measure depth_measure"
    using v by simp
next
  fix v :: jsval and xs
  assume "\<not> \<not> truthy v" "v = JArray xs"
  then show "(pick v [''value'', ''price'', ''ltp''] (JNumber (Fin 0)), v) \<in> measure depth_measure"
    by (simp add: depth_measure_def pick_def)
qed

text \<open>
  The object \<open>normalizeStockData\<close> returns has the fields of the one of \<open>parseStock\<close> and
  two more, \<open>open\<close> and \<open>previousClose\<close>. The price is chosen by a chain of \<open>if\<close>s on
  truthiness, the change by a chain of tests \<open>!== undefined\<close>.
\<close>

record api_quote = quote +
  open_field :: jsnum
  previousClose :: jsnum

definition normalizeStockData :: "nat \<Rightarrow> jsval \<Rightarrow> error + api_quote option" where
  "normalizeStockData now rw =
     (if \<not> truthy rw then Inr None
      else
        (let nm = pick rw [''company_name'', ''companyName'', ''name'', ''longName'',
                     ''shortName'', ''stock_name'', ''scrip_name'', ''symbol'']
                    (JString (lit ''Unknown''));
             s0 = pick rw [''symbol'', ''ticker'', ''nseSymbol'', ''bseSymbol'', ''stock_id'']
                    JUndefined
         in case (if truthy s0 then Inr s0 else derive_symbol nm) of
              Inl e \<Rightarrow> Inl e
            | Inr smb \<Rightarrow>
                Inr (Some \<lparr>
                  name = nm,
                  symbol = smb,
                  price =
                    (if truthy (get rw (lit ''currentPrice''))
                     then parseNumber (get rw (lit ''currentPrice''))
                     else if truthy (get rw (lit ''current_price''))
                     then parseNumber (get rw (lit ''current_price''))
                     else if truthy (get rw (lit ''price''))
                     then parseNumber (get rw (lit ''price''))
                     else if truthy (get rw (lit ''ltp''))
                     then parseNumber (get rw (lit ''ltp''))
                     else if truthy (get rw (lit ''lastPrice''))
                     then parseNumber (get rw (lit ''lastPrice''))
                     else if truthy (get rw (lit ''close''))
                     then parseNumber (get rw (lit ''close''))
                     else Fin 0),
                  id_field = (smb, now),
                  change =
                    (if get rw (lit ''pChange'') \<noteq> JUndefined
                     then parseNumber (get rw (lit ''pChange''))
                     else if get rw (lit ''change_percent'') \<noteq> JUndefined
                     then parseNumber (get rw (lit ''change_percent''))
                     else if get rw (lit ''changePercent'') \<noteq> JUndefined
                     then parseNumber (get rw (lit ''changePercent''))
                     else if get rw (lit ''percent_change'') \<noteq> JUndefined
                     then parseNumber (get rw (lit ''percent_change''))
                     else Fin 0),
                  volume = parseNumber (pick rw [''volume'', ''tradedVolume'',
                            ''totalTradedVolume''] (JNumber (Fin 0))),
                  high = parseNumber (pick rw [''high'', ''dayHigh''] (JNumber (Fin 0))),
                  low = parseNumber (pick rw [''low'', ''dayLow''] (JNumber (Fin 0))),
                  marketCap = parseNumber (pick rw [''marketCap'', ''market_cap'']
                            (JNumber (Fin 0))),
                  pe = parseNumber (pick rw [''pe'', ''peRatio''] (JNumber (Fin 0))),
                  high52 = parseNumber (pick rw [''high52'', ''week52High'', ''yearHigh'']
                            (JNumber (Fin 0))),
                  low52 = parseNumber (pick rw [''low52'', ''week52Low'', ''yearLow'']
                            (JNumber (Fin 0))),
                  sector = pick rw [''sector'', ''industry''] (JString []),
                  raw = rw,
                  open_field = parseNumber (pick rw [''open''] (JNumber (Fin 0))),
                  previousClose = parseNumber (pick rw [''previousClose'', ''prev_close'']
                            (JNumber (Fin 0))) \<rparr>)))"

subsection \<open>Filling the list view\<close>

text \<open>
  \<open>loadStocks\<close> unwraps the response of \<open>/trending\<close> into the array \<open>stocks\<close> of raw
  payloads and assigns \<open>state.stocks\<close> from it. The functions below are that assignment:
  they return the new \<open>state.stocks\<close>, or the exception that makes \<open>loadStocks\<close> leave
  \<open>state.stocks\<close> as it was. \<open>clock i\<close> is what \<open>Date.now()\<close> returns while element
  \<open>i\<close> is normalized.
\<close>

fun collect :: "(error + 'a) list \<Rightarrow> error + 'a list" where
  "collect [] = Inr []"
| "collect (Inl e # rs) = Inl e"
| "collect (Inr x # rs) = (case collect rs of Inl e \<Rightarrow> Inl e | Inr xs \<Rightarrow> Inr (x # xs))"

text \<open>
  app.js:
  \<open>stocks.map(s => utils.parseStock(s)).filter(s => s && s.name !== 'Unknown')\<close>
\<close>

definition keep_named :: "quote option \<Rightarrow> bool" where
  "keep_named s = (case s of None \<Rightarrow> False | Some q \<Rightarrow> name q \<noteq> JString (lit ''Unknown''))"

definition loadStocks :: "(nat \<Rightarrow> nat) \<Rightarrow> jsval list \<Rightarrow> error + quote list" where
  "loadStocks clock stocks =
     (case collect (map (\<lambda>(i, s). parseStock (clock i) s) (enumerate 0 stocks)) of
        Inl e \<Rightarrow> Inl e
      | Inr qs \<Rightarrow> Inr (map the (filter keep_named qs)))"

text \<open>stockquest.js: \<open>stocks.map(s => utils.extractStockData(s))\<close>\<close>

definition loadStocks_sq :: "(nat \<Rightarrow> nat) \<Rightarrow> jsval list \<Rightarrow> error + sq_quote list" where
  "loadStocks_sq clock stocks =
     collect (map (\<lambda>(i, s). extractStockData (clock i) s) (enumerate 0 stocks))"

section \<open>Team Builder\<close>

text \<open>
  The global \<open>state\<close> object of app.js and stockquest.js (stockquest.js has no \<open>user\<close>),
  with the parts of the page the handlers write to: the \<open>disabled\<close> flag of the button
  \<open>createPortfolioBtn\<close> and the toasts appended to \<open>toastContainer\<close>. The page is taken to
  contain these elements. \<open>window_Database\<close> says whether \<open>window.Database\<close> is set.
  \<open>state.maxStocks\<close> and \<open>state.minStocks\<close> are never assigned and are constants here.

  The handlers receive the symbol as a string, and a role holds \<open>null\<close> or such a string,
  so \<open>===\<close> on symbols is equality of values.
\<close>

datatype message =
    Maximum_stocks_allowed
  | Stock_already_selected
  | Stock_already_in_team
  | Added jsval
  | Added_to_team jsval
  | Removed jsval
  | Removed_from_team jsval
  | Captain_selected
  | Vice_Captain_selected
  | Captain_cannot_be_Vice_Captain
  | Is_now_Captain jsval
  | Is_now_Vice_Captain jsval
  | Add_stocks_first
  | Add_at_least_2_stocks
  | Team_cleared
  | Select_at_least_stocks
  | Please_select_a_Captain
  | Please_select_a_Vice_Captain
  | Insufficient_balance
  | Failed_to_save_to_cloud
  | You_must_be_logged_in
  | Portfolio_created_successfully

datatype toast_type = T_success | T_error | T_info

record user_info =
  uid :: jsstr
  displayName :: jsval

record state =
  user :: "user_info option"
  stocks :: "stock list"
  filteredStocks :: "stock list"
  selectedStocks :: "stock list"
  captain :: jsval
  viceCaptain :: jsval
  balance :: jsnum
  window_Database :: bool
  createBtnDisabled :: bool
  toasts :: "(message \<times> toast_type) list"

definition maxStocks :: nat where
  "maxStocks = 11"

definition minStocks :: nat where
  "minStocks = 5"

definition showToast :: "message \<Rightarrow> toast_type \<Rightarrow> state \<Rightarrow> state" where
  "showToast m t s = s\<lparr>toasts := toasts s @ [(m, t)]\<rparr>"

text \<open>\<open>canCreate\<close>, as \<open>renderTeamList\<close> computes it to enable the button.\<close>

definition canCreate :: "state \<Rightarrow> bool" where
  "canCreate s =
     (minStocks \<le> length (selectedStocks s) \<and> truthy (captain s) \<and> truthy (viceCaptain s))"

definition renderTeamList :: "state \<Rightarrow> state" where
  "renderTeamList s =
     (if selectedStocks s = [] then s\<lparr>createBtnDisabled := True\<rparr>
      else s\<lparr>createBtnDisabled := \<not> canCreate s\<rparr>)"

text \<open>\<open>state.selectedStocks.reduce((sum, s) => sum + (s.price * 10), 0)\<close>\<close>

definition totalCost :: "state \<Rightarrow> jsnum" where
  "totalCost s =
     foldl (\<lambda>sum st. js_add sum (js_mul (price st) (Fin 10))) (Fin 0) (selectedStocks s)"

fun findIndex :: "('a \<Rightarrow> bool) \<Rightarrow> 'a list \<Rightarrow> nat option" where
  "findIndex P [] = None"
| "findIndex P (x # xs) =
     (if P x then Some 0 else (case findIndex P xs of None \<Rightarrow> None | Some i \<Rightarrow> Some (Suc i)))"

text \<open>\<open>xs.splice(i, 1)\<close>\<close>

definition splice1 :: "nat \<Rightarrow> 'a list \<Rightarrow> 'a list" where
  "splice1 i xs = take i xs @ drop (Suc i) xs"

definition has_symbol :: "jsstr \<Rightarrow> stock \<Rightarrow> bool" where
  "has_symbol smb st = (symbol st = JString smb)"

subsection \<open>app.js\<close>

definition addStock :: "jsstr \<Rightarrow> state \<Rightarrow> state" where
  "addStock smb s =
     (case (case find (has_symbol smb) (stocks s) of
              Some st \<Rightarrow> Some st
            | None \<Rightarrow> find (has_symbol smb) (filteredStocks s)) of
        None \<Rightarrow> s
      | Some st \<Rightarrow>
          if maxStocks \<le> length (selectedStocks s)
          then showToast Maximum_stocks_allowed T_error s
          else if list_ex (has_symbol smb) (selectedStocks s)
          then showToast Stock_already_selected T_error s
          else renderTeamList
                 (showToast (Added (name st)) T_success
                    (s\<lparr>selectedStocks := selectedStocks s @ [st]\<rparr>)))"

definition removeStock :: "jsstr \<Rightarrow> state \<Rightarrow> state" where
  "removeStock smb s =
     (case findIndex (has_symbol smb) (selectedStocks s) of
        None \<Rightarrow> s
      | Some i \<Rightarrow>
          (let st = selectedStocks s ! i;
               s1 = s\<lparr>selectedStocks := splice1 i (selectedStocks s)\<rparr>;
               s2 = (if captain s1 = JString smb then s1\<lparr>captain := JNull\<rparr> else s1);
               s3 = (if viceCaptain s2 = JString smb then s2\<lparr>viceCaptain := JNull\<rparr> else s2)
           in renderTeamList (showToast (Removed (name st)) T_info s3)))"

definition clearTeam :: "state \<Rightarrow> state" where
  "clearTeam s =
     renderTeamList
       (showToast Team_cleared T_info
          (s\<lparr>selectedStocks := [], captain := JNull, viceCaptain := JNull\<rparr>))"

definition selectCaptain :: "state \<Rightarrow> state" where
  "selectCaptain s =
     (if length (selectedStocks s) < 1 then showToast Add_stocks_first T_error s
      else case find (\<lambda>st. symbol st \<noteq> viceCaptain s) (selectedStocks s) of
        None \<Rightarrow> s
      | Some available \<Rightarrow>
          renderTeamList
            (showToast (Is_now_Captain (name available)) T_success
               (s\<lparr>captain := symbol available\<rparr>)))"

definition selectViceCaptain :: "state \<Rightarrow> state" where
  "selectViceCaptain s =
     (if length (selectedStocks s) < 2 then showToast Add_at_least_2_stocks T_error s
      else case find (\<lambda>st. symbol st \<noteq> captain s) (selectedStocks s) of
        None \<Rightarrow> s
      | Some available \<Rightarrow>
          renderTeamList
            (showToast (Is_now_Vice_Captain (name available)) T_success
               (s\<lparr>viceCaptain := symbol available\<rparr>)))"

subsection \<open>stockquest.js\<close>

definition addStock_sq :: "jsstr \<Rightarrow> state \<Rightarrow> state" where
  "addStock_sq smb s =
     (case find (has_symbol smb) (stocks s) of
        None \<Rightarrow> s
      | Some st \<Rightarrow>
          if maxStocks \<le> length (selectedStocks s)
          then showToast Maximum_stocks_allowed T_error s
          else if list_ex (has_symbol smb) (selectedStocks s)
          then showToast Stock_already_in_team T_error s
          else renderTeamList
                 (showToast (Added_to_team (name st)) T_success
                    (s\<lparr>selectedStocks := selectedStocks s @ [st]\<rparr>)))"

definition removeStock_sq :: "jsstr \<Rightarrow> state \<Rightarrow> state" where
  "removeStock_sq smb s =
     (case findIndex (has_symbol smb) (selectedStocks s) of
        None \<Rightarrow> s
      | Some i \<Rightarrow>
          (let st = selectedStocks s ! i;
               s1 = s\<lparr>selectedStocks := splice1 i (selectedStocks s)\<rparr>;
               s2 = (if captain s1 = JString smb then s1\<lparr>captain := JNull\<rparr> else s1);
               s3 = (if viceCaptain s2 = JString smb then s2\<lparr>viceCaptain := JNull\<rparr> else s2)
           in renderTeamList (showToast (Removed_from_team (name st)) T_info s3)))"

definition setCaptain :: "jsstr \<Rightarrow> state \<Rightarrow> state" where
  "setCaptain smb s =
     (let s1 = (if viceCaptain s = JString smb then s\<lparr>viceCaptain := JNull\<rparr> else s)
      in renderTeamList (showToast Captain_selected T_success (s1\<lparr>captain := JString smb\<rparr>)))"

definition setViceCaptain :: "jsstr \<Rightarrow> state \<Rightarrow> state" where
  "setViceCaptain smb s =
     (if captain s = JString smb then showToast Captain_cannot_be_Vice_Captain T_error s
      else renderTeamList
             (showToast Vice_Captain_selected T_success (s\<lparr>viceCaptain := JString smb\<rparr>)))"

section \<open>Portfolio Ledger\<close>

record portfolio_stock =
  ps_symbol :: jsval
  ps_name :: jsval
  ps_price :: jsnum
  quantity :: jsnum

record portfolioData =
  pd_stocks :: "portfolio_stock list"
  pd_captain :: jsval
  pd_viceCaptain :: jsval
  invested :: jsnum

definition portfolio_stocks :: "state \<Rightarrow> portfolio_stock list" where
  "portfolio_stocks s =
     map (\<lambda>st. \<lparr>ps_symbol = symbol st, ps_name = name st, ps_price = price st,
                 quantity = Fin 10\<rparr>) (selectedStocks s)"

subsection \<open>stockquest.js: portfolios in \<open>localStorage\<close>\<close>

text \<open>
  The two keys of \<open>localStorage\<close> that \<open>createPortfolio\<close> writes; the portfolios are kept
  as the list that is serialised. \<open>now\<close> and \<open>created\<close> are the two clock readings
  (\<open>Date.now()\<close> and \<open>new Date()\<close>).
\<close>

record local_portfolio = portfolioData +
  p_id :: nat
  createdAt :: nat

record localStorage =
  stockquest_portfolios :: "local_portfolio list"
  stockquest_balance :: "jsnum option"

definition createPortfolio_sq ::
    "nat \<Rightarrow> nat \<Rightarrow> state \<times> localStorage \<Rightarrow> state \<times> localStorage" where
  "createPortfolio_sq now created w =
     (let s = fst w; ls = snd w
      in if length (selectedStocks s) < minStocks
         then (showToast Select_at_least_stocks T_error s, ls)
         else if \<not> truthy (captain s)
         then (showToast Please_select_a_Captain T_error s, ls)
         else if \<not> truthy (viceCaptain s)
         then (showToast Please_select_a_Vice_Captain T_error s, ls)
         else
           (let tc = totalCost s
            in if js_gt tc (balance s)
               then (showToast Insufficient_balance T_error s, ls)
               else
                 (let portfolio = \<lparr>pd_stocks = portfolio_stocks s, pd_captain = captain s,
                                    pd_viceCaptain = viceCaptain s, invested = tc,
                                    p_id = now, createdAt = created\<rparr>;
                      ls1 = ls\<lparr>stockquest_portfolios := stockquest_portfolios ls @ [portfolio]\<rparr>;
                      s1 = s\<lparr>balance := js_sub (balance s) tc\<rparr>;
                      ls2 = ls1\<lparr>stockquest_balance := Some (balance s1)\<rparr>;
                      s2 = showToast Portfolio_created_successfully T_success s1;
                      s3 = s2\<lparr>selectedStocks := [], captain := JNull, viceCaptain := JNull\<rparr>
                  in (renderTeamList s3, ls2))))"

subsection \<open>app.js: portfolios in the document store\<close>

text \<open>
  The collections written through \<open>Database\<close> (firestore.js). The \<open>createdAt\<close> and
  \<open>updatedAt\<close> fields are filled in by the server and are left out.
\<close>

record portfolio_doc = portfolioData +
  userId :: jsstr
  currentValue :: jsnum
  returns :: jsnum
  points :: jsnum
  status :: jsstr

record db =
  db_portfolios :: "portfolio_doc list"
  db_users :: "(jsstr \<times> jsnum) list"
  db_leaderboard :: "(jsstr \<times> jsval \<times> jsnum) list"

definition upsert :: "'k \<Rightarrow> 'v \<Rightarrow> ('k \<times> 'v) list \<Rightarrow> ('k \<times> 'v) list" where
  "upsert k v kvs = (k, v) # filter (\<lambda>kv. fst kv \<noteq> k) kvs"

text \<open>
  The three calls \<open>createPortfolio\<close> awaits: \<open>Database.createPortfolio(uid, portfolioData)\<close>,
  \<open>Database.updateUser(uid, {balance})\<close> and
  \<open>Database.updateLeaderboardEntry(uid, {name, points})\<close>, and what each writes when the
  store accepts it.
\<close>

datatype request =
    CreatePortfolio jsstr "portfolioData"
  | UpdateUser jsstr jsnum
  | UpdateLeaderboardEntry jsstr jsval jsnum

fun perform :: "request \<Rightarrow> db \<Rightarrow> db" where
  "perform (CreatePortfolio u pd) d =
     d\<lparr>db_portfolios := db_portfolios d @
         [\<lparr>pd_stocks = pd_stocks pd, pd_captain = pd_captain pd,
           pd_viceCaptain = pd_viceCaptain pd, invested = invested pd,
           userId = u, currentValue = invested pd, returns = Fin 0, points = Fin 0,
           status = lit ''active''\<rparr>]\<rparr>"
| "perform (UpdateUser u b) d = d\<lparr>db_users := upsert u b (db_users d)\<rparr>"
| "perform (UpdateLeaderboardEntry u nm pts) d =
     d\<lparr>db_leaderboard := upsert u (nm, pts) (db_leaderboard d)\<rparr>"

text \<open>
  \<open>createPortfolio\<close> of app.js is an \<open>async\<close> function with three \<open>await\<close>s. It runs
  without interruption up to an \<open>await\<close>; while it waits the page handles other events.
  A suspended invocation is a \<open>task\<close>: the call it waits for and the local constant
  \<open>totalCost\<close>.

  \<open>createPortfolio_start\<close> is the part up to the first \<open>await\<close>.
  \<open>createPortfolio_resume ok t\<close> is the part from the end of one wait to the next (or to the
  end): the store has accepted the awaited call (\<open>ok\<close>, the write is done) or rejected it
  (no write, the \<open>catch\<close> block runs).
\<close>

record task =
  awaiting :: request
  totalCost_const :: jsnum

definition createPortfolio_start :: "state \<Rightarrow> state \<times> task option" where
  "createPortfolio_start s =
     (if length (selectedStocks s) < minStocks
      then (showToast Select_at_least_stocks T_error s, None)
      else if \<not> truthy (captain s)
      then (showToast Please_select_a_Captain T_error s, None)
      else if \<not> truthy (viceCaptain s)
      then (showToast Please_select_a_Vice_Captain T_error s, None)
      else
        (let tc = totalCost s
         in if js_gt tc (balance s)
            then (showToast Insufficient_balance T_error s, None)
            else
              (let pd = \<lparr>pd_stocks = portfolio_stocks s, pd_captain = captain s,
                          pd_viceCaptain = viceCaptain s, invested = tc\<rparr>
               in case user s of
                    None \<Rightarrow> (showToast You_must_be_logged_in T_error s, None)
                  | Some u \<Rightarrow>
                      if window_Database s
                      then (s, Some \<lparr>awaiting = CreatePortfolio (uid u) pd,
                                      totalCost_const = tc\<rparr>)
                      else (showToast You_must_be_logged_in T_error s, None))))"

definition createPortfolio_resume ::
    "bool \<Rightarrow> task \<Rightarrow> state \<times> db \<Rightarrow> (state \<times> db) \<times> task option" where
  "createPortfolio_resume ok t w =
     (let s = fst w; d = snd w
      in if \<not> ok then ((showToast Failed_to_save_to_cloud T_error s, d), None)
         else
           (let d1 = perform (awaiting t) d
            in case awaiting t of
                 CreatePortfolio _ _ \<Rightarrow>
                   (let s1 = s\<lparr>balance := js_sub (balance s) (totalCost_const t)\<rparr>
                    in case user s1 of
                         None \<Rightarrow> ((showToast Failed_to_save_to_cloud T_error s1, d1), None)
                       | Some u \<Rightarrow>
                           ((s1, d1), Some (t\<lparr>awaiting := UpdateUser (uid u) (balance s1)\<rparr>)))
               | UpdateUser _ _ \<Rightarrow>
                   (case user s of
                      None \<Rightarrow> ((showToast Failed_to_save_to_cloud T_error s, d1), None)
                    | Some u \<Rightarrow>
                        ((s, d1),
                         Some (t\<lparr>awaiting :=
                                   UpdateLeaderboardEntry (uid u) (displayName u) (Fin 0)\<rparr>)))
               | UpdateLeaderboardEntry _ _ _ \<Rightarrow>
                   (let s1 = showToast Portfolio_created_successfully T_success s;
                        s2 = s1\<lparr>selectedStocks := [], captain := JNull, viceCaptain := JNull\<rparr>
                    in ((renderTeamList s2, d1), None))))"

text \<open>
  One invocation run to its end with no other event in between; \<open>ok1\<close>, \<open>ok2\<close> and \<open>ok3\<close>
  are the store's answers to the three calls.
\<close>

definition createPortfolio ::
    "bool \<Rightarrow> bool \<Rightarrow> bool \<Rightarrow> state \<times> db \<Rightarrow> state \<times> db" where
  "createPortfolio ok1 ok2 ok3 w =
     (case createPortfolio_start (fst w) of
        (s1, None) \<Rightarrow> (s1, snd w)
      | (s1, Some t1) \<Rightarrow>
          (case createPortfolio_resume ok1 t1 (s1, snd w) of
             (w2, None) \<Rightarrow> w2
           | (w2, Some t2) \<Rightarrow>
               (case createPortfolio_resume ok2 t2 w2 of
                  (w3, None) \<Rightarrow> w3
                | (w3, Some t3) \<Rightarrow> fst (createPortfolio_resume ok3 t3 w3))))"

text \<open>
  The same invocation with other events handled while it waits: \<open>e1\<close>, \<open>e2\<close> and \<open>e3\<close>
  are what those events do to the page and the store during the first, the second and the
  third wait. \<open>keeps_balance e\<close> says that \<open>e\<close> does not assign \<open>state.balance\<close>.
  \<open>balance_arrives b\<close> is the listener of \<open>authStateChanged\<close> assigning the balance of the
  account document, \<open>state.balance = userDoc.balance\<close>.
\<close>

definition createPortfolio_amid ::
    "(state \<times> db \<Rightarrow> state \<times> db) \<Rightarrow> (state \<times> db \<Rightarrow> state \<times> db) \<Rightarrow> (state \<times> db \<Rightarrow> state \<times> db)
     \<Rightarrow> bool \<Rightarrow> bool \<Rightarrow> bool \<Rightarrow> state \<times> db \<Rightarrow> state \<times> db" where
  "createPortfolio_amid e1 e2 e3 ok1 ok2 ok3 w =
     (case createPortfolio_start (fst w) of
        (s1, None) \<Rightarrow> (s1, snd w)
      | (s1, Some t1) \<Rightarrow>
          (case createPortfolio_resume ok1 t1 (e1 (s1, snd w)) of
             (w2, None) \<Rightarrow> w2
           | (w2, Some t2) \<Rightarrow>
               (case createPortfolio_resume ok2 t2 (e2 w2) of
                  (w3, None) \<Rightarrow> w3
                | (w3, Some t3) \<Rightarrow> fst (createPortfolio_resume ok3 t3 (e3 w3)))))"

definition keeps_balance :: "(state \<times> db \<Rightarrow> state \<times> db) \<Rightarrow> bool" where
  "keeps_balance e = (\<forall>w. balance (fst (e w)) = balance (fst w))"

definition balance_arrives :: "jsnum \<Rightarrow> state \<times> db \<Rightarrow> state \<times> db" where
  "balance_arrives b w = ((fst w)\<lparr>balance := b\<rparr>, snd w)"

section \<open>Reachable selections\<close>

text \<open>
  A page starts with an empty selection and no roles. From there the handlers run in any
  order, with any argument; the catalogue and the balance may be replaced at any time (a
  reload, a search, the account document arriving).
\<close>

definition initial :: "state \<Rightarrow> bool" where
  "initial s = (selectedStocks s = [] \<and> captain s = JNull \<and> viceCaptain s = JNull)"

inductive reachable_app :: "state \<Rightarrow> bool" where
  app_init: "initial s \<Longrightarrow> reachable_app s"
| app_add: "reachable_app s \<Longrightarrow> reachable_app (addStock smb s)"
| app_remove: "reachable_app s \<Longrightarrow> reachable_app (removeStock smb s)"
| app_captain: "reachable_app s \<Longrightarrow> reachable_app (selectCaptain s)"
| app_vice: "reachable_app s \<Longrightarrow> reachable_app (selectViceCaptain s)"
| app_clear: "reachable_app s \<Longrightarrow> reachable_app (clearTeam s)"
| app_create: "reachable_app s \<Longrightarrow> reachable_app (fst (createPortfolio ok1 ok2 ok3 (s, d)))"
| app_env: "reachable_app s \<Longrightarrow>
            reachable_app (s\<lparr>stocks := xs, filteredStocks := ys, balance := b, user := u\<rparr>)"

inductive reachable_sq :: "state \<Rightarrow> bool" where
  sq_init: "initial s \<Longrightarrow> reachable_sq s"
| sq_add: "reachable_sq s \<Longrightarrow> reachable_sq (addStock_sq smb s)"
| sq_remove: "reachable_sq s \<Longrightarrow> reachable_sq (removeStock_sq smb s)"
| sq_captain: "reachable_sq s \<Longrightarrow> reachable_sq (setCaptain smb s)"
| sq_vice: "reachable_sq s \<Longrightarrow> reachable_sq (setViceCaptain smb s)"
| sq_clear: "reachable_sq s \<Longrightarrow> reachable_sq (clearTeam s)"
| sq_create: "reachable_sq s \<Longrightarrow> reachable_sq (fst (createPortfolio_sq now created (s, ls)))"
| sq_env: "reachable_sq s \<Longrightarrow>
           reachable_sq (s\<lparr>stocks := xs, filteredStocks := ys, balance := b\<rparr>)"

text \<open>
  The same for stockquest.js when the two role handlers are only called the way the team
  list calls them: from the buttons of a selected stock, with that stock's symbol.
\<close>

inductive reachable_sq_listed :: "state \<Rightarrow> bool" where
  sql_init: "initial s \<Longrightarrow> reachable_sq_listed s"
| sql_add: "reachable_sq_listed s \<Longrightarrow> reachable_sq_listed (addStock_sq smb s)"
| sql_remove: "reachable_sq_listed s \<Longrightarrow> reachable_sq_listed (removeStock_sq smb s)"
| sql_captain: "reachable_sq_listed s \<Longrightarrow> list_ex (has_symbol smb) (selectedStocks s) \<Longrightarrow>
                reachable_sq_listed (setCaptain smb s)"
| sql_vice: "reachable_sq_listed s \<Longrightarrow> list_ex (has_symbol smb) (selectedStocks s) \<Longrightarrow>
             reachable_sq_listed (setViceCaptain smb s)"
| sql_clear: "reachable_sq_listed s \<Longrightarrow> reachable_sq_listed (clearTeam s)"
| sql_create: "reachable_sq_listed s \<Longrightarrow>
               reachable_sq_listed (fst (createPortfolio_sq now created (s, ls)))"
| sql_env: "reachable_sq_listed s \<Longrightarrow>
            reachable_sq_listed (s\<lparr>stocks := xs, filteredStocks := ys, balance := b\<rparr>)"

text \<open>
  The invariant of the Selection: the two roles are not the same symbol, and a role that
  is set is the symbol of a selected stock.
\<close>

definition role_selected :: "jsval \<Rightarrow> state \<Rightarrow> bool" where
  "role_selected r s = (r = JNull \<or> r \<in> set (map symbol (selectedStocks s)))"

definition selection_inv :: "state \<Rightarrow> bool" where
  "selection_inv s =
     ((captain s = JNull \<or> captain s \<noteq> viceCaptain s)
      \<and> role_selected (captain s) s \<and> role_selected (viceCaptain s) s)"

definition same_selection :: "state \<Rightarrow> state \<Rightarrow> bool" where
  "same_selection s' s =
     (selectedStocks s' = selectedStocks s \<and> captain s' = captain s
      \<and> viceCaptain s' = viceCaptain s)"

section \<open>A double click on the submit button\<close>

text \<open>
  Two invocations of \<open>createPortfolio\<close> of app.js, the second one starting while the first
  waits for \<open>Database.createPortfolio\<close>; the store accepts every call and answers them in
  the order they were made.
\<close>

definition resume_ok :: "task option \<Rightarrow> state \<times> db \<Rightarrow> (state \<times> db) \<times> task option" where
  "resume_ok t w = (case t of None \<Rightarrow> (w, None) | Some t' \<Rightarrow> createPortfolio_resume True t' w)"

definition double_click :: "state \<times> db \<Rightarrow> state \<times> db" where
  "double_click w =
     (let (s1, a0) = createPortfolio_start (fst w);
          (s2, b0) = createPortfolio_start s1;
          (w1, a1) = resume_ok a0 (s2, snd w);
          (w2, b1) = resume_ok b0 w1;
          (w3, a2) = resume_ok a1 w2;
          (w4, b2) = resume_ok b1 w3;
          (w5, a3) = resume_ok a2 w4;
          (w6, b3) = resume_ok b2 w5
      in w6)"

section \<open>Example states\<close>

definition mk_stock :: "string \<Rightarrow> rat \<Rightarrow> stock" where
  "mk_stock n p = \<lparr>name = JString (lit n), symbol = JString (lit n), price = Fin p\<rparr>"

definition five :: "stock list" where
  "five = map (\<lambda>n. mk_stock n 100) [''A'', ''B'', ''C'', ''D'', ''E'']"

definition eleven :: "stock list" where
  "eleven = map (\<lambda>n. mk_stock n 100)
     [''A'', ''B'', ''C'', ''D'', ''E'', ''F'', ''G'', ''H'', ''I'', ''J'', ''K'']"

text \<open>A page just loaded: a catalogue of twelve stocks, nothing selected.\<close>

definition fresh :: state where
  "fresh = \<lparr>user = Some \<lparr>uid = lit ''u1'', displayName = JString (lit ''Asha'')\<rparr>,
     stocks = eleven @ [mk_stock ''L'' 100], filteredStocks = [], selectedStocks = [],
     captain = JNull, viceCaptain = JNull, balance = Fin 1000000, window_Database = True,
     createBtnDisabled = True, toasts = []\<rparr>"

text \<open>A team of five stocks at 100 each with both roles set: it costs 5000.\<close>

definition ready :: state where
  "ready = fresh\<lparr>selectedStocks := five, captain := JString (lit ''A''),
     viceCaptain := JString (lit ''B''), createBtnDisabled := False\<rparr>"

definition empty_db :: db where
  "empty_db = \<lparr>db_portfolios = [], db_users = [], db_leaderboard = []\<rparr>"

definition empty_storage :: localStorage where
  "empty_storage = \<lparr>stockquest_portfolios = [], stockquest_balance = None\<rparr>"

text \<open>Eleven stocks selected; a team that costs more than the balance; a single stock.\<close>

definition full :: state where
  "full = fresh\<lparr>selectedStocks := eleven\<rparr>"

definition poor :: state where
  "poor = ready\<lparr>balance := Fin 100\<rparr>"

definition short :: state where
  "short = ready\<lparr>selectedStocks := [mk_stock ''A'' 200000]\<rparr>"

text \<open>What \<open>utils.parseStock\<close> returns at clock reading \<open>t\<close> for the empty object.\<close>

definition unknown_quote :: "nat \<Rightarrow> quote" where
  "unknown_quote t =
     \<lparr>name = JString (lit ''Unknown''), symbol = JString (lit ''UNKNOW''), price = Fin 0,
       id_field = (JString (lit ''UNKNOW''), t), change = Fin 0, volume = Fin 0, high = Fin 0,
       low = Fin 0, marketCap = Fin 0, pe = Fin 0, high52 = Fin 0, low52 = Fin 0,
       sector = JString [], raw = JObject []\<rparr>"

text \<open>A fresh page whose catalogue is one stock at 2,000,000.\<close>

definition pricey :: state where
  "pricey = fresh\<lparr>stocks := [mk_stock ''M'' 2000000]\<rparr>"

text \<open>What \<open>StockAPI.normalizeStockData\<close> returns at clock reading \<open>t\<close> for the empty object.\<close>

definition unknown_api_quote :: "nat \<Rightarrow> api_quote" where
  "unknown_api_quote t =
     \<lparr>name = JString (lit ''Unknown''), symbol = JString (lit ''UNKNOW''), price = Fin 0,
       id_field = (JString (lit ''UNKNOW''), t), change = Fin 0, volume = Fin 0, high = Fin 0,
       low = Fin 0, marketCap = Fin 0, pe = Fin 0, high52 = Fin 0, low52 = Fin 0,
       sector = JString [], raw = JObject [], open_field = Fin 0, previousClose = Fin 0\<rparr>"

section \<open>Absent fields\<close>

text \<open>None of the keys \<open>ks\<close> has a truthy value in the payload.\<close>

definition absent :: "jsval \<Rightarrow> string list \<Rightarrow> bool" where
  "absent rw ks = list_all (\<lambda>k. \<not> truthy (get rw (lit k))) ks"

section \<open>Lists and the handlers\<close>

lemma findIndex_None: "findIndex P xs = None \<longleftrightarrow> \<not> list_ex P xs"
  by (induction xs) (auto split: option.splits)

lemma findIndex_Some: "findIndex P xs = Some i \<Longrightarrow> i < length xs \<and> P (xs ! i)"
  by (induction xs arbitrary: i) (auto split: if_splits option.splits)

lemma findIndex_append_last:
  "\<not> list_ex P xs \<Longrightarrow> P x \<Longrightarrow> findIndex P (xs @ [x]) = Some (length xs)"
  by (induction xs) auto

lemma splice1_last: "splice1 (length xs) (xs @ [x]) = xs"
  by (simp add: splice1_def)

lemma length_splice1: "i < length xs \<Longrightarrow> length (splice1 i xs) = length xs - 1"
  by (simp add: splice1_def)

lemma set_splice1_subset: "set (splice1 i xs) \<subseteq> set xs"
  by (auto simp: splice1_def dest: in_set_takeD in_set_dropD)

lemma set_splice1_keeps:
  assumes "i < length xs" "x \<in> set xs" "x \<noteq> xs ! i"
  shows "x \<in> set (splice1 i xs)"
proof -
  obtain j where j: "j < length xs" "xs ! j = x"
    using assms(2) by (auto simp: in_set_conv_nth)
  have ne: "j \<noteq> i" using assms(3) j by auto
  show ?thesis
  proof (cases "j < i")
    case True
    then have "take i xs ! j = x" "j < length (take i xs)" using j assms(1) by simp_all
    then have "x \<in> set (take i xs)" using nth_mem by blast
    then show ?thesis by (simp add: splice1_def)
  next
    case False
    then have gt: "Suc i \<le> j" using ne by simp
    then have "drop (Suc i) xs ! (j - Suc i) = x" "j - Suc i < length (drop (Suc i) xs)"
      using j by simp_all
    then have "x \<in> set (drop (Suc i) xs)" using nth_mem by blast
    then show ?thesis by (simp add: splice1_def)
  qed
qed

text \<open>A symbol other than the removed one stays among the symbols of the selection.\<close>

lemma symbol_kept:
  assumes "findIndex (has_symbol smb) xs = Some i" "r \<in> set (map symbol xs)" "r \<noteq> JString smb"
  shows "r \<in> set (map symbol (splice1 i xs))"
proof -
  from assms(1) have i: "i < length xs" "symbol (xs ! i) = JString smb"
    using findIndex_Some[of "has_symbol smb" xs i] by (simp_all add: has_symbol_def)
  from assms(2) obtain st where st: "st \<in> set xs" "symbol st = r" by auto
  with i assms(3) have "st \<noteq> xs ! i" by auto
  with i st have "st \<in> set (splice1 i xs)" by (simp add: set_splice1_keeps)
  with st show ?thesis by auto
qed

lemmas op_defs = addStock_def removeStock_def clearTeam_def selectCaptain_def selectViceCaptain_def
  addStock_sq_def removeStock_sq_def setCaptain_def setViceCaptain_def

lemmas ui_defs = showToast_def renderTeamList_def

lemma inv_initial: "initial s \<Longrightarrow> selection_inv s"
  by (simp add: initial_def selection_inv_def role_selected_def)

text \<open>What matters of a state for the invariant is its selection and its two roles.\<close>

lemma inv_cong:
  "selectedStocks s' = selectedStocks s \<Longrightarrow> captain s' = captain s \<Longrightarrow>
   viceCaptain s' = viceCaptain s \<Longrightarrow> selection_inv s' = selection_inv s"
  by (simp add: selection_inv_def role_selected_def)

lemma inv_push:
  "selection_inv s \<Longrightarrow> selectedStocks s' = selectedStocks s @ [st] \<Longrightarrow> captain s' = captain s \<Longrightarrow>
   viceCaptain s' = viceCaptain s \<Longrightarrow> selection_inv s'"
  by (auto simp add: selection_inv_def role_selected_def)

lemma inv_addStock: "selection_inv s \<Longrightarrow> selection_inv (addStock smb s)"
proof -
  assume inv: "selection_inv s"
  show ?thesis
  proof (cases "case find (has_symbol smb) (stocks s) of Some st \<Rightarrow> Some st
                | None \<Rightarrow> find (has_symbol smb) (filteredStocks s)")
    case None
    then show ?thesis using inv by (simp add: addStock_def)
  next
    case (Some st)
    show ?thesis
    proof (cases "maxStocks \<le> length (selectedStocks s) \<or> list_ex (has_symbol smb) (selectedStocks s)")
      case True
      then have "selection_inv (addStock smb s) = selection_inv s"
        using Some by (intro inv_cong) (auto simp: addStock_def ui_defs)
      then show ?thesis using inv by simp
    next
      case False
      then show ?thesis using Some
        by (intro inv_push[OF inv, of _ st]) (auto simp: addStock_def ui_defs)
    qed
  qed
qed

lemma inv_addStock_sq: "selection_inv s \<Longrightarrow> selection_inv (addStock_sq smb s)"
proof -
  assume inv: "selection_inv s"
  show ?thesis
  proof (cases "find (has_symbol smb) (stocks s)")
    case None
    then show ?thesis using inv by (simp add: addStock_sq_def)
  next
    case (Some st)
    show ?thesis
    proof (cases "maxStocks \<le> length (selectedStocks s) \<or> list_ex (has_symbol smb) (selectedStocks s)")
      case True
      then have "selection_inv (addStock_sq smb s) = selection_inv s"
        using Some by (intro inv_cong) (auto simp: addStock_sq_def ui_defs)
      then show ?thesis using inv by simp
    next
      case False
      then show ?thesis using Some
        by (intro inv_push[OF inv, of _ st]) (auto simp: addStock_sq_def ui_defs)
    qed
  qed
qed

text \<open>Both \<open>removeStock\<close>s change the selection in the same way.\<close>

lemma removeStock_fields:
  assumes "findIndex (has_symbol smb) (selectedStocks s) = Some i"
  shows "selectedStocks (removeStock smb s) = splice1 i (selectedStocks s)"
    and "captain (removeStock smb s) = (if captain s = JString smb then JNull else captain s)"
    and "viceCaptain (removeStock smb s) = (if viceCaptain s = JString smb then JNull else viceCaptain s)"
  using assms by (simp_all add: removeStock_def Let_def ui_defs)

lemma removeStock_sq_fields:
  assumes "findIndex (has_symbol smb) (selectedStocks s) = Some i"
  shows "selectedStocks (removeStock_sq smb s) = splice1 i (selectedStocks s)"
    and "captain (removeStock_sq smb s) = (if captain s = JString smb then JNull else captain s)"
    and "viceCaptain (removeStock_sq smb s) = (if viceCaptain s = JString smb then JNull else viceCaptain s)"
  using assms by (simp_all add: removeStock_sq_def Let_def ui_defs)

lemma inv_remove_fields:
  assumes inv: "selection_inv s"
    and i: "findIndex (has_symbol smb) (selectedStocks s) = Some i"
    and sel: "selectedStocks s' = splice1 i (selectedStocks s)"
    and cap: "captain s' = (if captain s = JString smb then JNull else captain s)"
    and vc: "viceCaptain s' = (if viceCaptain s = JString smb then JNull else viceCaptain s)"
  shows "selection_inv s'"
proof -
  have keep: "r \<in> set (map symbol (splice1 i (selectedStocks s)))"
    if "r \<in> set (map symbol (selectedStocks s))" "r \<noteq> JString smb" for r
    using symbol_kept[OF i that] .
  have c: "role_selected (captain s') s'"
    using inv keep[of "captain s"] by (auto simp: selection_inv_def role_selected_def sel cap)
  have v: "role_selected (viceCaptain s') s'"
    using inv keep[of "viceCaptain s"] by (auto simp: selection_inv_def role_selected_def sel vc)
  have d: "captain s' = JNull \<or> captain s' \<noteq> viceCaptain s'"
    using inv by (auto simp: selection_inv_def cap vc)
  from c v d show ?thesis by (simp add: selection_inv_def)
qed

lemma inv_removeStock: "selection_inv s \<Longrightarrow> selection_inv (removeStock smb s)"
proof (cases "findIndex (has_symbol smb) (selectedStocks s)")
  case None
  assume "selection_inv s"
  with None show ?thesis by (simp add: removeStock_def)
next
  case (Some i)
  assume "selection_inv s"
  then show ?thesis
    by (rule inv_remove_fields[OF _ Some removeStock_fields[OF Some]])
qed

lemma inv_removeStock_sq: "selection_inv s \<Longrightarrow> selection_inv (removeStock_sq smb s)"
proof (cases "findIndex (has_symbol smb) (selectedStocks s)")
  case None
  assume "selection_inv s"
  with None show ?thesis by (simp add: removeStock_sq_def)
next
  case (Some i)
  assume "selection_inv s"
  then show ?thesis
    by (rule inv_remove_fields[OF _ Some removeStock_sq_fields[OF Some]])
qed

lemma inv_clearTeam: "selection_inv (clearTeam s)"
  by (simp add: clearTeam_def ui_defs selection_inv_def role_selected_def)

lemma find_SomeD: "find P xs = Some x \<Longrightarrow> x \<in> set xs \<and> P x"
  by (auto simp: find_Some_iff)

lemma inv_selectCaptain: "selection_inv s \<Longrightarrow> selection_inv (selectCaptain s)"
proof -
  assume inv: "selection_inv s"
  show ?thesis
  proof (cases "length (selectedStocks s) < 1")
    case True
    then have "selection_inv (selectCaptain s) = selection_inv s"
      by (intro inv_cong) (simp_all add: selectCaptain_def ui_defs)
    with inv show ?thesis by simp
  next
    case False
    show ?thesis
    proof (cases "find (\<lambda>st. symbol st \<noteq> viceCaptain s) (selectedStocks s)")
      case None
      with False inv show ?thesis by (simp add: selectCaptain_def)
    next
      case (Some a)
      then have a: "a \<in> set (selectedStocks s)" "symbol a \<noteq> viceCaptain s"
        using find_SomeD[OF Some] by simp_all
      have f: "selectedStocks (selectCaptain s) = selectedStocks s"
        "captain (selectCaptain s) = symbol a" "viceCaptain (selectCaptain s) = viceCaptain s"
        using False Some by (simp_all add: selectCaptain_def ui_defs)
      show ?thesis using inv a
        by (auto simp: selection_inv_def role_selected_def f)
    qed
  qed
qed

lemma inv_selectViceCaptain: "selection_inv s \<Longrightarrow> selection_inv (selectViceCaptain s)"
proof -
  assume inv: "selection_inv s"
  show ?thesis
  proof (cases "length (selectedStocks s) < 2")
    case True
    then have "selection_inv (selectViceCaptain s) = selection_inv s"
      by (intro inv_cong) (simp_all add: selectViceCaptain_def ui_defs)
    with inv show ?thesis by simp
  next
    case False
    show ?thesis
    proof (cases "find (\<lambda>st. symbol st \<noteq> captain s) (selectedStocks s)")
      case None
      with False inv show ?thesis by (simp add: selectViceCaptain_def)
    next
      case (Some a)
      then have a: "a \<in> set (selectedStocks s)" "symbol a \<noteq> captain s"
        using find_SomeD[OF Some] by simp_all
      have f: "selectedStocks (selectViceCaptain s) = selectedStocks s"
        "captain (selectViceCaptain s) = captain s" "viceCaptain (selectViceCaptain s) = symbol a"
        using False Some by (simp_all add: selectViceCaptain_def ui_defs)
      show ?thesis using inv a
        by (auto simp: selection_inv_def role_selected_def f)
    qed
  qed
qed

lemma list_ex_symbol: "list_ex (has_symbol smb) xs \<Longrightarrow> JString smb \<in> set (map symbol xs)"
  by (force simp: list_ex_iff has_symbol_def)

lemma setCaptain_fields:
  "selectedStocks (setCaptain smb s) = selectedStocks s"
  "captain (setCaptain smb s) = JString smb"
  "viceCaptain (setCaptain smb s) = (if viceCaptain s = JString smb then JNull else viceCaptain s)"
  by (simp_all add: setCaptain_def Let_def ui_defs)

lemma inv_setCaptain:
  "selection_inv s \<Longrightarrow> list_ex (has_symbol smb) (selectedStocks s) \<Longrightarrow> selection_inv (setCaptain smb s)"
  using list_ex_symbol[of smb "selectedStocks s"]
  by (auto simp: selection_inv_def role_selected_def setCaptain_fields)

lemma setViceCaptain_fields:
  "selectedStocks (setViceCaptain smb s) = selectedStocks s"
  "captain (setViceCaptain smb s) = captain s"
  "viceCaptain (setViceCaptain smb s) = (if captain s = JString smb then viceCaptain s else JString smb)"
  by (simp_all add: setViceCaptain_def ui_defs)

lemma inv_setViceCaptain:
  "selection_inv s \<Longrightarrow> list_ex (has_symbol smb) (selectedStocks s) \<Longrightarrow> selection_inv (setViceCaptain smb s)"
  using list_ex_symbol[of smb "selectedStocks s"]
  by (auto simp: selection_inv_def role_selected_def setViceCaptain_fields)

text \<open>A submission leaves the selection as it was or clears it.\<close>

lemma sel_createPortfolio_sq:
  "same_selection (fst (createPortfolio_sq now created (s, ls))) s
   \<or> initial (fst (createPortfolio_sq now created (s, ls)))"
  by (simp add: createPortfolio_sq_def Let_def ui_defs initial_def same_selection_def)

lemma start_sel: "same_selection (fst (createPortfolio_start s)) s"
  by (simp add: createPortfolio_start_def Let_def ui_defs same_selection_def split: option.split)

lemma resume_sel:
  "same_selection (fst (fst (createPortfolio_resume ok t (s, d)))) s
   \<or> initial (fst (fst (createPortfolio_resume ok t (s, d))))"
  by (cases "awaiting t")
     (simp_all add: createPortfolio_resume_def Let_def ui_defs same_selection_def initial_def
        split: option.split)

lemma same_selection_trans: "same_selection a b \<Longrightarrow> same_selection b c \<Longrightarrow> same_selection a c"
  by (simp add: same_selection_def)

lemma same_selection_refl: "same_selection s s"
  by (simp add: same_selection_def)

text \<open>After the third wait nothing is pending.\<close>

lemma resume_task:
  "snd (createPortfolio_resume ok t w) = Some t' \<Longrightarrow>
     (\<exists>u pd. awaiting t = CreatePortfolio u pd \<and> (\<exists>u' b. awaiting t' = UpdateUser u' b))
     \<or> (\<exists>u b. awaiting t = UpdateUser u b \<and> (\<exists>u' n p. awaiting t' = UpdateLeaderboardEntry u' n p))"
  by (cases "awaiting t")
     (auto simp: createPortfolio_resume_def Let_def split: if_splits option.splits)

lemma start_task:
  "snd (createPortfolio_start s) = Some t \<Longrightarrow> \<exists>u pd. awaiting t = CreatePortfolio u pd"
  by (auto simp: createPortfolio_start_def Let_def split: if_splits option.splits)

lemma sel_steps:
  assumes "same_selection s1 s \<or> initial s1"
  shows "same_selection (fst (fst (createPortfolio_resume ok t (s1, d)))) s
         \<or> initial (fst (fst (createPortfolio_resume ok t (s1, d))))"
  using resume_sel[of ok t s1 d] assms
  by (auto simp: same_selection_def initial_def)

lemma sel_createPortfolio:
  "same_selection (fst (createPortfolio ok1 ok2 ok3 (s, d))) s
   \<or> initial (fst (createPortfolio ok1 ok2 ok3 (s, d)))"
proof -
  obtain s1 t1 where st: "createPortfolio_start s = (s1, t1)" by force
  have a1: "same_selection s1 s \<or> initial s1" using start_sel[of s] st by simp
  show ?thesis
  proof (cases t1)
    case None
    with st a1 show ?thesis by (simp add: createPortfolio_def)
  next
    case (Some t1')
    obtain s2 d2 t2 where r1: "createPortfolio_resume ok1 t1' (s1, d) = ((s2, d2), t2)"
      by (metis surj_pair)
    have a2: "same_selection s2 s \<or> initial s2" using sel_steps[OF a1, of ok1 t1' d] r1 by simp
    show ?thesis
    proof (cases t2)
      case None
      with st Some r1 a2 show ?thesis by (simp add: createPortfolio_def)
    next
      case (Some t2')
      obtain s3 d3 t3 where r2: "createPortfolio_resume ok2 t2' (s2, d2) = ((s3, d3), t3)"
        by (metis surj_pair)
      have a3: "same_selection s3 s \<or> initial s3" using sel_steps[OF a2, of ok2 t2' d2] r2 by simp
      show ?thesis
      proof (cases t3)
        case None
        with st \<open>t1 = Some t1'\<close> \<open>t2 = Some t2'\<close> r1 r2 a3 show ?thesis
          by (simp add: createPortfolio_def)
      next
        case (Some t3')
        have "same_selection (fst (fst (createPortfolio_resume ok3 t3' (s3, d3)))) s
              \<or> initial (fst (fst (createPortfolio_resume ok3 t3' (s3, d3))))"
          using sel_steps[OF a3] .
        with st \<open>t1 = Some t1'\<close> \<open>t2 = Some t2'\<close> Some r1 r2 show ?thesis
          by (simp add: createPortfolio_def)
      qed
    qed
  qed
qed

lemma inv_same: "same_selection s' s \<Longrightarrow> selection_inv s \<Longrightarrow> selection_inv s'"
  using inv_cong[of s' s] by (simp add: same_selection_def)

lemma inv_createPortfolio: "selection_inv s \<Longrightarrow> selection_inv (fst (createPortfolio ok1 ok2 ok3 (s, d)))"
  using sel_createPortfolio[of ok1 ok2 ok3 s d] inv_same inv_initial by blast

lemma inv_createPortfolio_sq: "selection_inv s \<Longrightarrow> selection_inv (fst (createPortfolio_sq now created (s, ls)))"
  using sel_createPortfolio_sq[of now created s ls] inv_same inv_initial by blast

lemma inv_env_app:
  "selection_inv (s\<lparr>stocks := xs, filteredStocks := ys, balance := b, user := u\<rparr>) = selection_inv s"
  by (simp add: selection_inv_def role_selected_def)

lemma inv_env_sq:
  "selection_inv (s\<lparr>stocks := xs, filteredStocks := ys, balance := b\<rparr>) = selection_inv s"
  by (simp add: selection_inv_def role_selected_def)

lemma inv_reachable_app: "reachable_app s \<Longrightarrow> selection_inv s"
  by (induction rule: reachable_app.induct)
     (simp_all add: inv_env_app inv_initial inv_addStock inv_removeStock inv_selectCaptain inv_selectViceCaptain
      inv_clearTeam inv_createPortfolio)

lemma inv_reachable_sq_listed: "reachable_sq_listed s \<Longrightarrow> selection_inv s"
  by (induction rule: reachable_sq_listed.induct)
     (simp_all add: inv_env_sq inv_initial inv_addStock_sq inv_removeStock_sq inv_setCaptain inv_setViceCaptain
      inv_clearTeam inv_createPortfolio_sq)

text \<open>Size\<close>

lemma len_addStock: "length (selectedStocks s) \<le> maxStocks \<Longrightarrow> length (selectedStocks (addStock smb s)) \<le> maxStocks"
  by (auto simp: addStock_def ui_defs split: option.splits)

lemma len_addStock_sq: "length (selectedStocks s) \<le> maxStocks \<Longrightarrow> length (selectedStocks (addStock_sq smb s)) \<le> maxStocks"
  by (auto simp: addStock_sq_def ui_defs split: option.splits)

lemma len_removeStock: "length (selectedStocks (removeStock smb s)) \<le> length (selectedStocks s)"
proof (cases "findIndex (has_symbol smb) (selectedStocks s)")
  case None then show ?thesis by (simp add: removeStock_def)
next
  case (Some i)
  then show ?thesis using findIndex_Some[OF Some]
    by (simp add: removeStock_fields length_splice1)
qed

lemma len_removeStock_sq: "length (selectedStocks (removeStock_sq smb s)) \<le> length (selectedStocks s)"
proof (cases "findIndex (has_symbol smb) (selectedStocks s)")
  case None then show ?thesis by (simp add: removeStock_sq_def)
next
  case (Some i)
  then show ?thesis using findIndex_Some[OF Some]
    by (simp add: removeStock_sq_fields length_splice1)
qed

lemma len_same_or_initial:
  "same_selection s' s \<or> initial s' \<Longrightarrow> length (selectedStocks s) \<le> maxStocks \<Longrightarrow>
   length (selectedStocks s') \<le> maxStocks"
  by (auto simp: same_selection_def initial_def)

lemma len_reachable_app: "reachable_app s \<Longrightarrow> length (selectedStocks s) \<le> maxStocks"
proof (induction rule: reachable_app.induct)
  case (app_init s) then show ?case by (simp add: initial_def)
next
  case (app_add s smb) then show ?case by (simp add: len_addStock)
next
  case (app_remove s smb) then show ?case using len_removeStock[of smb s] by simp
next
  case (app_captain s) then show ?case by (simp add: selectCaptain_def ui_defs split: option.split)
next
  case (app_vice s) then show ?case by (simp add: selectViceCaptain_def ui_defs split: option.split)
next
  case (app_clear s) then show ?case by (simp add: clearTeam_def ui_defs)
next
  case (app_create s ok1 ok2 ok3 d)
  then show ?case using len_same_or_initial[OF sel_createPortfolio] by simp
next
  case app_env then show ?case by simp
qed

lemma len_reachable_sq: "reachable_sq s \<Longrightarrow> length (selectedStocks s) \<le> maxStocks"
proof (induction rule: reachable_sq.induct)
  case (sq_init s) then show ?case by (simp add: initial_def)
next
  case (sq_add s smb) then show ?case by (simp add: len_addStock_sq)
next
  case (sq_remove s smb) then show ?case using len_removeStock_sq[of smb s] by simp
next
  case (sq_captain s smb) then show ?case by (simp add: setCaptain_fields)
next
  case (sq_vice s smb) then show ?case by (simp add: setViceCaptain_fields)
next
  case (sq_clear s) then show ?case by (simp add: clearTeam_def ui_defs)
next
  case (sq_create s now created ls)
  then show ?case using len_same_or_initial[OF sel_createPortfolio_sq] by simp
next
  case sq_env then show ?case by simp
qed

section \<open>The ledger\<close>

lemmas ex_defs = fresh_def ready_def five_def eleven_def mk_stock_def empty_db_def empty_storage_def

lemma start_pass:
  assumes "minStocks \<le> length (selectedStocks s)" "truthy (captain s)" "truthy (viceCaptain s)"
    "\<not> js_gt (totalCost s) (balance s)" "user s = Some u" "window_Database s"
  shows "createPortfolio_start s =
    (s, Some \<lparr>awaiting = CreatePortfolio (uid u)
                 \<lparr>pd_stocks = portfolio_stocks s, pd_captain = captain s,
                   pd_viceCaptain = viceCaptain s, invested = totalCost s\<rparr>,
               totalCost_const = totalCost s\<rparr>)"
  using assms by (simp add: createPortfolio_start_def Let_def)

lemma resume_create:
  assumes "awaiting t = CreatePortfolio u pd" "user s = Some v"
  shows "createPortfolio_resume True t (s, d) =
    ((s\<lparr>balance := js_sub (balance s) (totalCost_const t)\<rparr>, perform (CreatePortfolio u pd) d),
     Some (t\<lparr>awaiting := UpdateUser (uid v) (js_sub (balance s) (totalCost_const t))\<rparr>))"
  using assms by (simp add: createPortfolio_resume_def Let_def)

lemma resume_user:
  assumes "awaiting t = UpdateUser u b" "user s = Some v"
  shows "createPortfolio_resume True t (s, d) =
    ((s, perform (UpdateUser u b) d),
     Some (t\<lparr>awaiting := UpdateLeaderboardEntry (uid v) (displayName v) (Fin 0)\<rparr>))"
  using assms by (simp add: createPortfolio_resume_def Let_def)

lemma resume_board:
  assumes "awaiting t = UpdateLeaderboardEntry u n p"
  shows "createPortfolio_resume True t (s, d) =
    ((renderTeamList ((showToast Portfolio_created_successfully T_success s)
        \<lparr>selectedStocks := [], captain := JNull, viceCaptain := JNull\<rparr>),
      perform (UpdateLeaderboardEntry u n p) d), None)"
  using assms by (simp add: createPortfolio_resume_def Let_def)

lemma double_click_effect:
  assumes "minStocks \<le> length (selectedStocks s)" "truthy (captain s)" "truthy (viceCaptain s)"
    "\<not> js_gt (totalCost s) (balance s)" "user s = Some u" "window_Database s"
  shows "length (db_portfolios (snd (double_click (s, d)))) = length (db_portfolios d) + 2"
    and "balance (fst (double_click (s, d))) = js_sub (js_sub (balance s) (totalCost s)) (totalCost s)"
  using assms
  by (simp_all add: double_click_def start_pass[OF assms] resume_ok_def resume_create resume_user
        resume_board ui_defs)

lemma ready_facts:
  "minStocks \<le> length (selectedStocks ready)" "truthy (captain ready)" "truthy (viceCaptain ready)"
  "user ready = Some \<lparr>uid = lit ''u1'', displayName = JString (lit ''Asha'')\<rparr>" "window_Database ready"
  "balance ready = Fin 1000000" "createBtnDisabled ready = False"
  by (simp_all add: ready_def fresh_def five_def minStocks_def lit_def)

lemma tc_ready: "totalCost ready = Fin 5000"
  by (simp add: totalCost_def ready_def fresh_def five_def mk_stock_def)

lemma afford_ready: "\<not> js_gt (totalCost ready) (balance ready)"
  by (simp add: tc_ready ready_facts)

lemma never_negative_sub:
  "\<not> js_gt c b \<Longrightarrow> \<not> js_lt b (Fin 0) \<Longrightarrow> \<not> js_lt (js_sub b c) (Fin 0)"
  by (cases b; cases c) (auto simp: js_lt_def js_sub_def)

text \<open>The first toast of a rejected submission, by the order of the guards.\<close>

lemma start_reject:
  assumes "length (selectedStocks s) < minStocks \<or> \<not> truthy (captain s) \<or> \<not> truthy (viceCaptain s)
           \<or> js_gt (totalCost s) (balance s)"
  shows "createPortfolio_start s =
    (showToast (if length (selectedStocks s) < minStocks then Select_at_least_stocks
                else if \<not> truthy (captain s) then Please_select_a_Captain
                else if \<not> truthy (viceCaptain s) then Please_select_a_Vice_Captain
                else Insufficient_balance) T_error s, None)"
  using assms by (auto simp: createPortfolio_start_def Let_def)

lemma sq_reject:
  assumes "length (selectedStocks s) < minStocks \<or> \<not> truthy (captain s) \<or> \<not> truthy (viceCaptain s)
           \<or> js_gt (totalCost s) (balance s)"
  shows "createPortfolio_sq now created (s, ls) =
    (showToast (if length (selectedStocks s) < minStocks then Select_at_least_stocks
                else if \<not> truthy (captain s) then Please_select_a_Captain
                else if \<not> truthy (viceCaptain s) then Please_select_a_Vice_Captain
                else Insufficient_balance) T_error s, ls)"
  using assms by (auto simp: createPortfolio_sq_def Let_def)

lemma sq_pass:
  assumes "minStocks \<le> length (selectedStocks s)" "truthy (captain s)" "truthy (viceCaptain s)"
    "\<not> js_gt (totalCost s) (balance s)"
  shows "balance (fst (createPortfolio_sq now created (s, ls))) = js_sub (balance s) (totalCost s)"
    and "stockquest_portfolios (snd (createPortfolio_sq now created (s, ls))) =
         stockquest_portfolios ls @
           [\<lparr>pd_stocks = portfolio_stocks s, pd_captain = captain s,
             pd_viceCaptain = viceCaptain s, invested = totalCost s,
             p_id = now, createdAt = created\<rparr>]"
    and "initial (fst (createPortfolio_sq now created (s, ls)))"
  using assms by (simp_all add: createPortfolio_sq_def Let_def ui_defs initial_def)

lemma start_cases:
  "(\<exists>m. createPortfolio_start s = (showToast m T_error s, None))
   \<or> (\<not> js_gt (totalCost s) (balance s) \<and> minStocks \<le> length (selectedStocks s)
       \<and> truthy (captain s) \<and> truthy (viceCaptain s)
       \<and> (\<exists>t. createPortfolio_start s = (s, Some t) \<and> totalCost_const t = totalCost s
              \<and> (\<exists>u pd. awaiting t = CreatePortfolio u pd)))"
  by (auto simp: createPortfolio_start_def Let_def split: option.splits)

text \<open>Only the step after \<open>Database.createPortfolio\<close> debits the balance.\<close>

lemma resume_balance:
  "balance (fst (fst (createPortfolio_resume ok t (s, d)))) =
     (if ok \<and> (\<exists>u pd. awaiting t = CreatePortfolio u pd)
      then js_sub (balance s) (totalCost_const t) else balance s)"
  by (cases "awaiting t")
     (simp_all add: createPortfolio_resume_def Let_def ui_defs split: option.split)

lemma resume_const:
  "snd (createPortfolio_resume ok t w) = Some t' \<Longrightarrow> totalCost_const t' = totalCost_const t"
  by (cases "awaiting t")
     (auto simp: createPortfolio_resume_def Let_def split: if_splits option.splits)

lemma balance_createPortfolio:
  "balance (fst (createPortfolio ok1 ok2 ok3 (s, d))) = balance s
   \<or> (\<not> js_gt (totalCost s) (balance s)
       \<and> balance (fst (createPortfolio ok1 ok2 ok3 (s, d))) = js_sub (balance s) (totalCost s))"
proof -
  consider (rej) m where "createPortfolio_start s = (showToast m T_error s, None)"
    | (pass) t where "\<not> js_gt (totalCost s) (balance s)" "createPortfolio_start s = (s, Some t)"
        "totalCost_const t = totalCost s" "\<exists>u pd. awaiting t = CreatePortfolio u pd"
    using start_cases[of s] by blast
  then show ?thesis
  proof cases
    case rej
    then show ?thesis by (simp add: createPortfolio_def showToast_def)
  next
    case pass
    obtain s2 d2 t2 where r1: "createPortfolio_resume ok1 t (s, d) = ((s2, d2), t2)"
      by (metis surj_pair)
    have b2: "balance s2 = (if ok1 then js_sub (balance s) (totalCost s) else balance s)"
      using resume_balance[of ok1 t s d] r1 pass(3,4) by auto
    show ?thesis
    proof (cases t2)
      case None
      then have "createPortfolio ok1 ok2 ok3 (s, d) = (s2, d2)"
        using pass(2) r1 by (simp add: createPortfolio_def)
      then show ?thesis using b2 pass(1) by auto
    next
      case (Some t2')
      have k2: "\<not> (\<exists>u pd. awaiting t2' = CreatePortfolio u pd)"
        using resume_task[of ok1 t "(s, d)" t2'] r1 Some pass(4) by auto
      obtain s3 d3 t3 where r2: "createPortfolio_resume ok2 t2' (s2, d2) = ((s3, d3), t3)"
        by (metis surj_pair)
      have b3: "balance s3 = balance s2"
        using resume_balance[of ok2 t2' s2 d2] r2 k2 by auto
      show ?thesis
      proof (cases t3)
        case None
        then have "createPortfolio ok1 ok2 ok3 (s, d) = (s3, d3)"
          using pass(2) r1 r2 Some by (simp add: createPortfolio_def)
        then show ?thesis using b2 b3 pass(1) by auto
      next
        case (Some t3')
        have k3: "\<not> (\<exists>u pd. awaiting t3' = CreatePortfolio u pd)"
          using resume_task[of ok2 t2' "(s2, d2)" t3'] r2 Some by auto
        have b4: "balance (fst (fst (createPortfolio_resume ok3 t3' (s3, d3)))) = balance s3"
          using resume_balance[of ok3 t3' s3 d3] k3 by auto
        have "createPortfolio ok1 ok2 ok3 (s, d) = fst (createPortfolio_resume ok3 t3' (s3, d3))"
          using pass(2) r1 r2 \<open>t2 = Some t2'\<close> Some by (simp add: createPortfolio_def)
        then show ?thesis using b2 b3 b4 pass(1) by auto
      qed
    qed
  qed
qed

lemma createPortfolio_reject:
  assumes "length (selectedStocks s) < minStocks \<or> \<not> truthy (captain s) \<or> \<not> truthy (viceCaptain s)
           \<or> js_gt (totalCost s) (balance s)"
  shows "createPortfolio ok1 ok2 ok3 (s, d) =
    (showToast (if length (selectedStocks s) < minStocks then Select_at_least_stocks
                else if \<not> truthy (captain s) then Please_select_a_Captain
                else if \<not> truthy (viceCaptain s) then Please_select_a_Vice_Captain
                else Insufficient_balance) T_error s, d)"
  by (simp add: createPortfolio_def start_reject[OF assms])

lemma never_negative_app:
  "\<not> js_lt (balance s) (Fin 0) \<Longrightarrow>
   \<not> js_lt (balance (fst (createPortfolio ok1 ok2 ok3 (s, d)))) (Fin 0)"
  using balance_createPortfolio[of ok1 ok2 ok3 s d] never_negative_sub by metis

lemma never_negative_sq:
  assumes "\<not> js_lt (balance s) (Fin 0)"
  shows "\<not> js_lt (balance (fst (createPortfolio_sq now created (s, ls)))) (Fin 0)"
proof (cases "length (selectedStocks s) < minStocks \<or> \<not> truthy (captain s) \<or> \<not> truthy (viceCaptain s)
           \<or> js_gt (totalCost s) (balance s)")
  case True
  then show ?thesis using assms by (simp add: sq_reject showToast_def)
next
  case False
  then show ?thesis using assms never_negative_sub by (simp add: sq_pass(1))
qed

section \<open>The claims\<close>

subsection \<open>Claim C1: strings with a magnitude suffix\<close>

lemmas num_defs = lit_def rupee_def pick_def num_or_def strip_def trim_def
  isWhiteSpace_def isDigit_def parseFloat_str_def digits_val_def
  exponent_def scale10_def toLowerCase_def toUpperCase_def lower_def upper_def Let_def

lemma includes_str_set: "includes_str xs p \<Longrightarrow> set p \<subseteq> set xs"
proof (induction xs)
  case Nil then show ?case by simp
next
  case (Cons c s)
  then show ?case
  proof (cases "take (length p) (c # s) = p")
    case True
    then have "set p = set (take (length p) (c # s))" by simp
    then show ?thesis using set_take_subset[of "length p" "c # s"] by auto
  next
    case False
    with Cons show ?thesis by auto
  qed
qed

lemma set_trim: "set (trim s) \<subseteq> set s"
proof -
  have "set (trim s) \<subseteq> set (rev (dropWhile isWhiteSpace s))"
    unfolding trim_def by (metis set_dropWhileD set_rev subsetI)
  then show ?thesis using set_dropWhileD by fastforce
qed

lemma crore_branch_dead:
  "\<not> includes_str (toLowerCase (trim (strip cls_detail s))) (lit ''cr'')"
proof
  assume "includes_str (toLowerCase (trim (strip cls_detail s))) (lit ''cr'')"
  then have "set (lit ''cr'') \<subseteq> set (toLowerCase (trim (strip cls_detail s)))"
    by (rule includes_str_set)
  then have "99 \<in> set (toLowerCase (trim (strip cls_detail s)))"
    by (simp add: lit_def)
  then obtain c where c: "c \<in> set (trim (strip cls_detail s))" "lower c = 99"
    by (auto simp: toLowerCase_def)
  then have "c \<in> set (strip cls_detail s)" using set_trim by blast
  then have "\<not> cls_detail c" by (simp add: strip_def)
  moreover have "c = 99 \<or> c = 67" using c(2) by (auto simp: lower_def split: if_splits)
  ultimately show False by (auto simp: cls_detail_def)
qed

text \<open>
  Claim C1 asks that the string made of the rupee sign and \<open>1.50 Cr\<close> resolve to
  15,000,000, as the object \<open>{value: 15000000}\<close> does. On the code it resolves to 1.5 in
  both resolvers. The one in \<open>utils.parseStock\<close> has no suffix handling. The one in
  \<open>showStockDetail\<close> deletes the letters \<open>C\<close> and \<open>r\<close> with its character class before
  it looks for \<open>cr\<close>, so the branch that multiplies by 10,000,000 is never taken, for any
  input. The suffix \<open>L\<close> is applied by \<open>showStockDetail\<close> only, and a bare \<open>L\<close> gives
  NaN there, not 0.
\<close>

theorem crore_suffix_not_applied:
  "parseNum_detail (JString (rupee # lit ''1.50 Cr'')) = Fin (3 / 2)
   \<and> parseNum (JString (rupee # lit ''1.50 Cr'')) = Fin (3 / 2)
   \<and> parseNum_detail (JObject [(lit ''value'', JNumber (Fin 15000000))]) = Fin 15000000
   \<and> parseNum (JObject [(lit ''value'', JNumber (Fin 15000000))]) = Fin 15000000
   \<and> parseNum_detail (JString (rupee # lit ''2.5 L'')) = Fin 250000
   \<and> parseNum (JString (rupee # lit ''2.5 L'')) = Fin (5 / 2)
   \<and> parseNum_detail (JString (lit ''L'')) = NaN
   \<and> (\<forall>s. \<not> includes_str (toLowerCase (trim (strip cls_detail s))) (lit ''cr''))"
proof -
  have a: "parseNum_detail (JString (rupee # lit ''1.50 Cr'')) = Fin (3 / 2)"
    by (simp add: parseNum_detail_def cls_detail_def num_defs)
  have b: "parseNum (JString (rupee # lit ''1.50 Cr'')) = Fin (3 / 2)"
    by (simp add: parseNum_def cls_parseStock_def num_defs)
  have c: "parseNum_detail (JObject [(lit ''value'', JNumber (Fin 15000000))]) = Fin 15000000"
    by (simp add: parseNum_detail_def num_defs)
  have d: "parseNum (JObject [(lit ''value'', JNumber (Fin 15000000))]) = Fin 15000000"
    by (simp add: parseNum_def num_defs)
  have e: "parseNum_detail (JString (rupee # lit ''2.5 L'')) = Fin 250000"
    by (simp add: parseNum_detail_def cls_detail_def num_defs)
  have f: "parseNum (JString (rupee # lit ''2.5 L'')) = Fin (5 / 2)"
    by (simp add: parseNum_def cls_parseStock_def num_defs)
  have g: "parseNum_detail (JString (lit ''L'')) = NaN"
    by (simp add: parseNum_detail_def cls_detail_def num_defs)
  from a b c d e f g crore_branch_dead show ?thesis by simp
qed

subsection \<open>Claim C8: records named Unknown and the list view\<close>

lemma extract_priced:
  "extractStockData t (JObject [(lit ''price'', JNumber (Fin 100))]) =
     Inr \<lparr>name = JString (lit ''Unknown''), symbol = JString (lit ''UNKNOW''), price = Fin 100,
       sq_id = (JString (lit ''UNKNOW''), t), sq_change = Fin 0, sq_changeAbs = Fin 0,
       sq_volume = JNumber (Fin 0), sq_high = Fin 0, sq_low = Fin 0, sq_sector = JString [],
       sq_marketCap = JNumber (Fin 0), sq_pe = JNumber (Fin 0), sq_high52 = JNumber (Fin 0),
       sq_low52 = JNumber (Fin 0), sq_raw = JObject [(lit ''price'', JNumber (Fin 100))]\<rparr>"
  by (simp add: extractStockData_def parsePrice_def parseChange_def derive_symbol_def num_defs)

lemma parse_priced:
  "parseStock t (JObject [(lit ''price'', JNumber (Fin 100))]) =
     Inr (Some \<lparr>name = JString (lit ''Unknown''), symbol = JString (lit ''UNKNOW''), price = Fin 100,
       id_field = (JString (lit ''UNKNOW''), t), change = Fin 0, volume = Fin 0, high = Fin 0,
       low = Fin 0, marketCap = Fin 0, pe = Fin 0, high52 = Fin 0, low52 = Fin 0,
       sector = JString [], raw = JObject [(lit ''price'', JNumber (Fin 100))]\<rparr>)"
  by (simp add: parseStock_def parseNum_def derive_symbol_def num_defs)

text \<open>
  Claim C8: for a payload with a price and no name field, \<open>loadStocks\<close> of app.js drops
  the record, and \<open>loadStocks\<close> of stockquest.js keeps it in \<open>state.stocks\<close> under the
  name \<open>Unknown\<close>.
\<close>

theorem stockquest_list_keeps_unknown:
  "map_sum id (map name) (loadStocks_sq (\<lambda>i. 0) [JObject [(lit ''price'', JNumber (Fin 100))]])
     = Inr [JString (lit ''Unknown'')]
   \<and> loadStocks (\<lambda>i. 0) [JObject [(lit ''price'', JNumber (Fin 100))]] = Inr []"
  by (simp add: loadStocks_sq_def loadStocks_def keep_named_def enumerate_eq_zip
        extract_priced parse_priced)

text \<open>app.js filters such records out of every list it loads.\<close>

lemma collect_Inr: "collect rs = Inr xs \<Longrightarrow> rs = map Inr xs"
proof (induction rs arbitrary: xs)
  case Nil then show ?case by simp
next
  case (Cons r rs)
  then show ?case by (cases r) (auto split: sum.splits)
qed

lemma loadStocks_filters:
  assumes "loadStocks clock raws = Inr qs" "q \<in> set qs"
  shows "name q \<noteq> JString (lit ''Unknown'')"
proof -
  from assms(1) obtain os where "qs = map the (filter keep_named os)"
    by (auto simp: loadStocks_def split: sum.splits)
  with assms(2) obtain x where "keep_named x" "q = the x" by auto
  then show ?thesis by (cases x) (simp_all add: keep_named_def)
qed

subsection \<open>Claim C9: the normalizer and the clock\<close>

lemma pick_absent: "absent rw ks \<Longrightarrow> pick rw ks d = d"
  unfolding absent_def pick_def by (induction ks) auto

lemma parseNum_zero: "parseNum (JNumber (Fin 0)) = Fin 0"
  by (simp add: parseNum_def)

lemma parseStock_empty: "parseStock t (JObject []) = Inr (Some (unknown_quote t))"
  by (simp add: parseStock_def parseNum_def derive_symbol_def unknown_quote_def num_defs)

lemma parseStock_clock:
  "map_sum id (map_option (\<lambda>q. q\<lparr>id_field := (symbol q, t2)\<rparr>)) (parseStock t1 rw) = parseStock t2 rw"
  by (simp add: parseStock_def Let_def split: sum.split)

lemma normalizeStockData_clock:
  "map_sum id (map_option (\<lambda>q. q\<lparr>id_field := (symbol q, t2)\<rparr>)) (normalizeStockData t1 rw)
     = normalizeStockData t2 rw"
proof (cases "truthy rw")
  case False
  then show ?thesis by (simp add: normalizeStockData_def)
next
  case True
  let ?nm = "pick rw [''company_name'', ''companyName'', ''name'', ''longName'',
                     ''shortName'', ''stock_name'', ''scrip_name'', ''symbol'']
                    (JString (lit ''Unknown''))"
  let ?s0 = "pick rw [''symbol'', ''ticker'', ''nseSymbol'', ''bseSymbol'', ''stock_id'']
                    JUndefined"
  show ?thesis
  proof (cases "if truthy ?s0 then Inr ?s0 else derive_symbol ?nm")
    case (Inl e)
    with True show ?thesis
      by (simp add: normalizeStockData_def Let_def split del: if_split cong: if_cong)
  next
    case (Inr smb)
    with True show ?thesis
      by (simp add: normalizeStockData_def Let_def split del: if_split cong: if_cong)
  qed
qed

lemma parseStock_fields:
  assumes "parseStock t rw = Inr (Some q)"
  shows "price q = parseNum (pick rw [''currentPrice'', ''current_price'', ''price'',
                            ''ltp'', ''lastPrice'', ''close''] (JNumber (Fin 0)))"
    and "change q = parseNum (pick rw [''pChange'', ''change_percent'', ''changePercent'',
                            ''percent_change''] (JNumber (Fin 0)))"
    and "volume q = parseNum (pick rw [''volume'', ''tradedVolume'', ''totalTradedVolume'']
                            (JNumber (Fin 0)))"
    and "high q = parseNum (pick rw [''high'', ''dayHigh''] (JNumber (Fin 0)))"
    and "low q = parseNum (pick rw [''low'', ''dayLow''] (JNumber (Fin 0)))"
    and "marketCap q = parseNum (pick rw [''marketCap'', ''market_cap''] (JNumber (Fin 0)))"
    and "pe q = parseNum (pick rw [''pe'', ''peRatio''] (JNumber (Fin 0)))"
    and "high52 q = parseNum (pick rw [''high52'', ''week52High'', ''yearHigh''] (JNumber (Fin 0)))"
    and "low52 q = parseNum (pick rw [''low52'', ''week52Low'', ''yearLow''] (JNumber (Fin 0)))"
    and "sector q = pick rw [''sector'', ''industry''] (JString [])"
    and "id_field q = (symbol q, t)"
  using assms
  by (auto simp: parseStock_def Let_def split: if_splits sum.splits)

lemma parseNumber_falsy: "\<not> truthy v \<Longrightarrow> parseNumber v = Fin 0"
  by (subst parseNumber.simps) simp

lemma parseNum_falsy: "\<not> truthy v \<Longrightarrow> parseNum v = Fin 0"
  by (simp add: parseNum_def)

lemma parseNumber_zero: "parseNumber (JNumber (Fin 0)) = Fin 0"
  by (simp add: parseNumber_falsy)

lemma normalizeStockData_record:
  assumes "normalizeStockData t rw = Inr (Some p)"
  shows "\<exists>smb. p =
     \<lparr>name = pick rw [''company_name'', ''companyName'', ''name'', ''longName'',
                     ''shortName'', ''stock_name'', ''scrip_name'', ''symbol'']
                    (JString (lit ''Unknown'')),
       symbol = smb,
       price =
         (if truthy (get rw (lit ''currentPrice''))
          then parseNumber (get rw (lit ''currentPrice''))
          else if truthy (get rw (lit ''current_price''))
          then parseNumber (get rw (lit ''current_price''))
          else if truthy (get rw (lit ''price''))
          then parseNumber (get rw (lit ''price''))
          else if truthy (get rw (lit ''ltp''))
          then parseNumber (get rw (lit ''ltp''))
          else if truthy (get rw (lit ''lastPrice''))
          then parseNumber (get rw (lit ''lastPrice''))
          else if truthy (get rw (lit ''close''))
          then parseNumber (get rw (lit ''close''))
          else Fin 0),
       id_field = (smb, t),
       change =
         (if get rw (lit ''pChange'') \<noteq> JUndefined
          then parseNumber (get rw (lit ''pChange''))
          else if get rw (lit ''change_percent'') \<noteq> JUndefined
          then parseNumber (get rw (lit ''change_percent''))
          else if get rw (lit ''changePercent'') \<noteq> JUndefined
          then parseNumber (get rw (lit ''changePercent''))
          else if get rw (lit ''percent_change'') \<noteq> JUndefined
          then parseNumber (get rw (lit ''percent_change''))
          else Fin 0),
       volume = parseNumber (pick rw [''volume'', ''tradedVolume'',
                 ''totalTradedVolume''] (JNumber (Fin 0))),
       high = parseNumber (pick rw [''high'', ''dayHigh''] (JNumber (Fin 0))),
       low = parseNumber (pick rw [''low'', ''dayLow''] (JNumber (Fin 0))),
       marketCap = parseNumber (pick rw [''marketCap'', ''market_cap''] (JNumber (Fin 0))),
       pe = parseNumber (pick rw [''pe'', ''peRatio''] (JNumber (Fin 0))),
       high52 = parseNumber (pick rw [''high52'', ''week52High'', ''yearHigh'']
                 (JNumber (Fin 0))),
       low52 = parseNumber (pick rw [''low52'', ''week52Low'', ''yearLow'']
                 (JNumber (Fin 0))),
       sector = pick rw [''sector'', ''industry''] (JString []),
       raw = rw,
       open_field = parseNumber (pick rw [''open''] (JNumber (Fin 0))),
       previousClose = parseNumber (pick rw [''previousClose'', ''prev_close'']
                 (JNumber (Fin 0)))\<rparr>"
proof (cases "truthy rw")
  case False
  with assms show ?thesis by (simp add: normalizeStockData_def)
next
  case True
  let ?nm = "pick rw [''company_name'', ''companyName'', ''name'', ''longName'',
                     ''shortName'', ''stock_name'', ''scrip_name'', ''symbol'']
                    (JString (lit ''Unknown''))"
  let ?s0 = "pick rw [''symbol'', ''ticker'', ''nseSymbol'', ''bseSymbol'', ''stock_id'']
                    JUndefined"
  show ?thesis
  proof (cases "if truthy ?s0 then Inr ?s0 else derive_symbol ?nm")
    case (Inl e)
    with True assms show ?thesis
      by (simp add: normalizeStockData_def Let_def split del: if_split cong: if_cong)
  next
    case (Inr smb)
    with True assms have "p = the (projr (normalizeStockData t rw))" by simp
    with True Inr show ?thesis
      by (simp add: normalizeStockData_def Let_def split del: if_split cong: if_cong)
  qed
qed

lemma price_chain_absent:
  "absent rw [''currentPrice'', ''current_price'', ''price'', ''ltp'', ''lastPrice'', ''close''] \<Longrightarrow>
     (if truthy (get rw (lit ''currentPrice''))
          then parseNumber (get rw (lit ''currentPrice''))
          else if truthy (get rw (lit ''current_price''))
          then parseNumber (get rw (lit ''current_price''))
          else if truthy (get rw (lit ''price''))
          then parseNumber (get rw (lit ''price''))
          else if truthy (get rw (lit ''ltp''))
          then parseNumber (get rw (lit ''ltp''))
          else if truthy (get rw (lit ''lastPrice''))
          then parseNumber (get rw (lit ''lastPrice''))
          else if truthy (get rw (lit ''close''))
          then parseNumber (get rw (lit ''close''))
          else Fin 0) = Fin 0"
  by (simp add: absent_def)

lemma change_chain_absent:
  "absent rw [''pChange'', ''change_percent'', ''changePercent'', ''percent_change''] \<Longrightarrow>
     (if get rw (lit ''pChange'') \<noteq> JUndefined
          then parseNumber (get rw (lit ''pChange''))
          else if get rw (lit ''change_percent'') \<noteq> JUndefined
          then parseNumber (get rw (lit ''change_percent''))
          else if get rw (lit ''changePercent'') \<noteq> JUndefined
          then parseNumber (get rw (lit ''changePercent''))
          else if get rw (lit ''percent_change'') \<noteq> JUndefined
          then parseNumber (get rw (lit ''percent_change''))
          else Fin 0) = Fin 0"
  by (simp add: absent_def parseNumber_falsy)

lemma normalizeStockData_defaults:
  assumes "normalizeStockData t rw = Inr (Some p)"
  shows "id_field p = (symbol p, t)"
    and "absent rw [''company_name'', ''companyName'', ''name'', ''longName'', ''shortName'',
           ''stock_name'', ''scrip_name'', ''symbol''] \<Longrightarrow> name p = JString (lit ''Unknown'')"
    and "absent rw [''currentPrice'', ''current_price'', ''price'', ''ltp'', ''lastPrice'', ''close'']
           \<Longrightarrow> price p = Fin 0"
    and "absent rw [''pChange'', ''change_percent'', ''changePercent'', ''percent_change'']
           \<Longrightarrow> change p = Fin 0"
    and "absent rw [''volume'', ''tradedVolume'', ''totalTradedVolume''] \<Longrightarrow> volume p = Fin 0"
    and "absent rw [''high'', ''dayHigh''] \<Longrightarrow> high p = Fin 0"
    and "absent rw [''low'', ''dayLow''] \<Longrightarrow> low p = Fin 0"
    and "absent rw [''marketCap'', ''market_cap''] \<Longrightarrow> marketCap p = Fin 0"
    and "absent rw [''pe'', ''peRatio''] \<Longrightarrow> pe p = Fin 0"
    and "absent rw [''high52'', ''week52High'', ''yearHigh''] \<Longrightarrow> high52 p = Fin 0"
    and "absent rw [''low52'', ''week52Low'', ''yearLow''] \<Longrightarrow> low52 p = Fin 0"
    and "absent rw [''sector'', ''industry''] \<Longrightarrow> sector p = JString []"
    and "absent rw [''open''] \<Longrightarrow> open_field p = Fin 0"
    and "absent rw [''previousClose'', ''prev_close''] \<Longrightarrow> previousClose p = Fin 0"
proof -
  from normalizeStockData_record[OF assms] obtain smb where p: "p = \<lparr>name = pick rw [''company_name'', ''companyName'', ''name'', ''longName'',
                     ''shortName'', ''stock_name'', ''scrip_name'', ''symbol'']
                    (JString (lit ''Unknown'')),
       symbol = smb,
       price =
         (if truthy (get rw (lit ''currentPrice''))
          then parseNumber (get rw (lit ''currentPrice''))
          else if truthy (get rw (lit ''current_price''))
          then parseNumber (get rw (lit ''current_price''))
          else if truthy (get rw (lit ''price''))
          then parseNumber (get rw (lit ''price''))
          else if truthy (get rw (lit ''ltp''))
          then parseNumber (get rw (lit ''ltp''))
          else if truthy (get rw (lit ''lastPrice''))
          then parseNumber (get rw (lit ''lastPrice''))
          else if truthy (get rw (lit ''close''))
          then parseNumber (get rw (lit ''close''))
          else Fin 0),
       id_field = (smb, t),
       change =
         (if get rw (lit ''pChange'') \<noteq> JUndefined
          then parseNumber (get rw (lit ''pChange''))
          else if get rw (lit ''change_percent'') \<noteq> JUndefined
          then parseNumber (get rw (lit ''change_percent''))
          else if get rw (lit ''changePercent'') \<noteq> JUndefined
          then parseNumber (get rw (lit ''changePercent''))
          else if get rw (lit ''percent_change'') \<noteq> JUndefined
          then parseNumber (get rw (lit ''percent_change''))
          else Fin 0),
       volume = parseNumber (pick rw [''volume'', ''tradedVolume'',
                 ''totalTradedVolume''] (JNumber (Fin 0))),
       high = parseNumber (pick rw [''high'', ''dayHigh''] (JNumber (Fin 0))),
       low = parseNumber (pick rw [''low'', ''dayLow''] (JNumber (Fin 0))),
       marketCap = parseNumber (pick rw [''marketCap'', ''market_cap''] (JNumber (Fin 0))),
       pe = parseNumber (pick rw [''pe'', ''peRatio''] (JNumber (Fin 0))),
       high52 = parseNumber (pick rw [''high52'', ''week52High'', ''yearHigh'']
                 (JNumber (Fin 0))),
       low52 = parseNumber (pick rw [''low52'', ''week52Low'', ''yearLow'']
                 (JNumber (Fin 0))),
       sector = pick rw [''sector'', ''industry''] (JString []),
       raw = rw,
       open_field = parseNumber (pick rw [''open''] (JNumber (Fin 0))),
       previousClose = parseNumber (pick rw [''previousClose'', ''prev_close'']
                 (JNumber (Fin 0)))\<rparr>" by blast
  show "id_field p = (symbol p, t)" by (simp add: p)
  show "absent rw [''company_name'', ''companyName'', ''name'', ''longName'', ''shortName'',
           ''stock_name'', ''scrip_name'', ''symbol''] \<Longrightarrow> name p = JString (lit ''Unknown'')"
    by (simp add: p pick_absent)
  show "absent rw [''currentPrice'', ''current_price'', ''price'', ''ltp'', ''lastPrice'', ''close'']
           \<Longrightarrow> price p = Fin 0"
    using price_chain_absent[of rw] by (simp add: p split del: if_split cong: if_cong)
  show "absent rw [''pChange'', ''change_percent'', ''changePercent'', ''percent_change'']
           \<Longrightarrow> change p = Fin 0"
    using change_chain_absent[of rw] by (simp add: p split del: if_split cong: if_cong)
  show "absent rw [''volume'', ''tradedVolume'', ''totalTradedVolume''] \<Longrightarrow> volume p = Fin 0"
    by (simp add: p pick_absent parseNumber_zero)
  show "absent rw [''high'', ''dayHigh''] \<Longrightarrow> high p = Fin 0"
    by (simp add: p pick_absent parseNumber_zero)
  show "absent rw [''low'', ''dayLow''] \<Longrightarrow> low p = Fin 0"
    by (simp add: p pick_absent parseNumber_zero)
  show "absent rw [''marketCap'', ''market_cap''] \<Longrightarrow> marketCap p = Fin 0"
    by (simp add: p pick_absent parseNumber_zero)
  show "absent rw [''pe'', ''peRatio''] \<Longrightarrow> pe p = Fin 0"
    by (simp add: p pick_absent parseNumber_zero)
  show "absent rw [''high52'', ''week52High'', ''yearHigh''] \<Longrightarrow> high52 p = Fin 0"
    by (simp add: p pick_absent parseNumber_zero)
  show "absent rw [''low52'', ''week52Low'', ''yearLow''] \<Longrightarrow> low52 p = Fin 0"
    by (simp add: p pick_absent parseNumber_zero)
  show "absent rw [''sector'', ''industry''] \<Longrightarrow> sector p = JString []"
    by (simp add: p pick_absent)
  show "absent rw [''open''] \<Longrightarrow> open_field p = Fin 0"
    by (simp add: p pick_absent parseNumber_zero)
  show "absent rw [''previousClose'', ''prev_close''] \<Longrightarrow> previousClose p = Fin 0"
    by (simp add: p pick_absent parseNumber_zero)
qed

lemma parseStock_name:
  assumes "parseStock t rw = Inr (Some q)"
  shows "name q = pick rw [''company_name'', ''companyName'', ''name'', ''longName'',
                     ''shortName'', ''stock_name'', ''scrip_name'', ''symbol'']
                    (JString (lit ''Unknown''))"
  using assms by (auto simp: parseStock_def Let_def split: if_splits sum.splits)

lemma normalizeStockData_empty:
  "normalizeStockData t (JObject []) = Inr (Some (unknown_api_quote t))"
  by (simp add: normalizeStockData_def derive_symbol_def unknown_api_quote_def parseNumber_zero
        num_defs)

lemma absent_empty: "absent (JObject []) ks"
  by (simp add: absent_def list_all_iff)

text \<open>
  Claim C9: \<open>utils.parseStock\<close> reads the clock, and the \<open>id\<close> it returns joins the symbol
  to \<open>Date.now()\<close>; \<open>StockAPI.normalizeStockData\<close> does the same. Every other field, and
  whether the call returns a record, \<open>null\<close> or throws, depends on the payload alone: the
  result at one clock reading is the result at another with the reading inside \<open>id\<close>
  replaced. In the record of either normalizer a numeric field whose keys are all absent
  from the payload, or hold \<open>null\<close>, \<open>undefined\<close> or another falsy value, is 0; \<open>sector\<close>
  is then the empty string and \<open>name\<close> is \<open>Unknown\<close>. Both numeric resolvers turn
  \<open>null\<close> and \<open>undefined\<close> into 0.
\<close>

theorem parseStock_pure_but_id:
  "map_sum id (map_option (\<lambda>q. q\<lparr>id_field := (symbol q, t2)\<rparr>)) (parseStock t1 rw)
     = parseStock t2 rw
   \<and> map_sum id (map_option (\<lambda>q. q\<lparr>id_field := (symbol q, t2)\<rparr>)) (normalizeStockData t1 rw)
     = normalizeStockData t2 rw
   \<and> (parseStock t1 rw = Inr (Some q) \<longrightarrow>
        id_field q = (symbol q, t1)
        \<and> (absent rw [''company_name'', ''companyName'', ''name'', ''longName'', ''shortName'',
               ''stock_name'', ''scrip_name'', ''symbol'']
             \<longrightarrow> name q = JString (lit ''Unknown''))
        \<and> (absent rw [''currentPrice'', ''current_price'', ''price'', ''ltp'', ''lastPrice'', ''close'']
             \<longrightarrow> price q = Fin 0)
        \<and> (absent rw [''pChange'', ''change_percent'', ''changePercent'', ''percent_change'']
             \<longrightarrow> change q = Fin 0)
        \<and> (absent rw [''volume'', ''tradedVolume'', ''totalTradedVolume''] \<longrightarrow> volume q = Fin 0)
        \<and> (absent rw [''high'', ''dayHigh''] \<longrightarrow> high q = Fin 0)
        \<and> (absent rw [''low'', ''dayLow''] \<longrightarrow> low q = Fin 0)
        \<and> (absent rw [''marketCap'', ''market_cap''] \<longrightarrow> marketCap q = Fin 0)
        \<and> (absent rw [''pe'', ''peRatio''] \<longrightarrow> pe q = Fin 0)
        \<and> (absent rw [''high52'', ''week52High'', ''yearHigh''] \<longrightarrow> high52 q = Fin 0)
        \<and> (absent rw [''low52'', ''week52Low'', ''yearLow''] \<longrightarrow> low52 q = Fin 0)
        \<and> (absent rw [''sector'', ''industry''] \<longrightarrow> sector q = JString []))
   \<and> (normalizeStockData t1 rw = Inr (Some p) \<longrightarrow>
        id_field p = (symbol p, t1)
        \<and> (absent rw [''company_name'', ''companyName'', ''name'', ''longName'', ''shortName'',
               ''stock_name'', ''scrip_name'', ''symbol'']
             \<longrightarrow> name p = JString (lit ''Unknown''))
        \<and> (absent rw [''currentPrice'', ''current_price'', ''price'', ''ltp'', ''lastPrice'', ''close'']
             \<longrightarrow> price p = Fin 0)
        \<and> (absent rw [''pChange'', ''change_percent'', ''changePercent'', ''percent_change'']
             \<longrightarrow> change p = Fin 0)
        \<and> (absent rw [''volume'', ''tradedVolume'', ''totalTradedVolume''] \<longrightarrow> volume p = Fin 0)
        \<and> (absent rw [''high'', ''dayHigh''] \<longrightarrow> high p = Fin 0)
        \<and> (absent rw [''low'', ''dayLow''] \<longrightarrow> low p = Fin 0)
        \<and> (absent rw [''open''] \<longrightarrow> open_field p = Fin 0)
        \<and> (absent rw [''previousClose'', ''prev_close''] \<longrightarrow> previousClose p = Fin 0)
        \<and> (absent rw [''marketCap'', ''market_cap''] \<longrightarrow> marketCap p = Fin 0)
        \<and> (absent rw [''pe'', ''peRatio''] \<longrightarrow> pe p = Fin 0)
        \<and> (absent rw [''high52'', ''week52High'', ''yearHigh''] \<longrightarrow> high52 p = Fin 0)
        \<and> (absent rw [''low52'', ''week52Low'', ''yearLow''] \<longrightarrow> low52 p = Fin 0)
        \<and> (absent rw [''sector'', ''industry''] \<longrightarrow> sector p = JString []))
   \<and> (\<not> truthy v \<longrightarrow> parseNum v = Fin 0 \<and> parseNumber v = Fin 0)"
proof -
  have a: "parseStock t1 rw = Inr (Some q) \<longrightarrow>
        id_field q = (symbol q, t1)
        \<and> (absent rw [''company_name'', ''companyName'', ''name'', ''longName'', ''shortName'',
               ''stock_name'', ''scrip_name'', ''symbol'']
             \<longrightarrow> name q = JString (lit ''Unknown''))
        \<and> (absent rw [''currentPrice'', ''current_price'', ''price'', ''ltp'', ''lastPrice'', ''close'']
             \<longrightarrow> price q = Fin 0)
        \<and> (absent rw [''pChange'', ''change_percent'', ''changePercent'', ''percent_change'']
             \<longrightarrow> change q = Fin 0)
        \<and> (absent rw [''volume'', ''tradedVolume'', ''totalTradedVolume''] \<longrightarrow> volume q = Fin 0)
        \<and> (absent rw [''high'', ''dayHigh''] \<longrightarrow> high q = Fin 0)
        \<and> (absent rw [''low'', ''dayLow''] \<longrightarrow> low q = Fin 0)
        \<and> (absent rw [''marketCap'', ''market_cap''] \<longrightarrow> marketCap q = Fin 0)
        \<and> (absent rw [''pe'', ''peRatio''] \<longrightarrow> pe q = Fin 0)
        \<and> (absent rw [''high52'', ''week52High'', ''yearHigh''] \<longrightarrow> high52 q = Fin 0)
        \<and> (absent rw [''low52'', ''week52Low'', ''yearLow''] \<longrightarrow> low52 q = Fin 0)
        \<and> (absent rw [''sector'', ''industry''] \<longrightarrow> sector q = JString [])"
    using parseStock_fields[of t1 rw q] parseStock_name[of t1 rw q]
    by (simp add: pick_absent parseNum_zero)
  have b: "normalizeStockData t1 rw = Inr (Some p) \<longrightarrow>
        id_field p = (symbol p, t1)
        \<and> (absent rw [''company_name'', ''companyName'', ''name'', ''longName'', ''shortName'',
               ''stock_name'', ''scrip_name'', ''symbol'']
             \<longrightarrow> name p = JString (lit ''Unknown''))
        \<and> (absent rw [''currentPrice'', ''current_price'', ''price'', ''ltp'', ''lastPrice'', ''close'']
             \<longrightarrow> price p = Fin 0)
        \<and> (absent rw [''pChange'', ''change_percent'', ''changePercent'', ''percent_change'']
             \<longrightarrow> change p = Fin 0)
        \<and> (absent rw [''volume'', ''tradedVolume'', ''totalTradedVolume''] \<longrightarrow> volume p = Fin 0)
        \<and> (absent rw [''high'', ''dayHigh''] \<longrightarrow> high p = Fin 0)
        \<and> (absent rw [''low'', ''dayLow''] \<longrightarrow> low p = Fin 0)
        \<and> (absent rw [''open''] \<longrightarrow> open_field p = Fin 0)
        \<and> (absent rw [''previousClose'', ''prev_close''] \<longrightarrow> previousClose p = Fin 0)
        \<and> (absent rw [''marketCap'', ''market_cap''] \<longrightarrow> marketCap p = Fin 0)
        \<and> (absent rw [''pe'', ''peRatio''] \<longrightarrow> pe p = Fin 0)
        \<and> (absent rw [''high52'', ''week52High'', ''yearHigh''] \<longrightarrow> high52 p = Fin 0)
        \<and> (absent rw [''low52'', ''week52Low'', ''yearLow''] \<longrightarrow> low52 p = Fin 0)
        \<and> (absent rw [''sector'', ''industry''] \<longrightarrow> sector p = JString [])"
    using normalizeStockData_defaults[of t1 rw p] by blast
  have c: "\<not> truthy v \<longrightarrow> parseNum v = Fin 0 \<and> parseNumber v = Fin 0"
    by (simp add: parseNum_falsy parseNumber_falsy)
  from a b c parseStock_clock[of t2 t1 rw] normalizeStockData_clock[of t2 t1 rw]
  show ?thesis by blast
qed

text \<open>
  Two invocations on the same payload at different clock readings return different records.
\<close>

theorem parseStock_id_depends_on_clock:
  "parseStock 1 (JObject []) = Inr (Some (unknown_quote 1))
   \<and> parseStock 2 (JObject []) = Inr (Some (unknown_quote 2))
   \<and> id_field (unknown_quote 1) \<noteq> id_field (unknown_quote 2)
   \<and> parseStock 1 (JObject []) \<noteq> parseStock 2 (JObject [])
   \<and> normalizeStockData 1 (JObject []) \<noteq> normalizeStockData 2 (JObject [])"
  by (simp add: parseStock_empty normalizeStockData_empty unknown_quote_def unknown_api_quote_def)

text \<open>The statement of the claim at concrete inputs, with its hypotheses discharged.\<close>

theorem parseStock_pure_but_id_witness:
  "parseStock 1 (JObject []) = Inr (Some (unknown_quote 1))
   \<and> normalizeStockData 1 (JObject []) = Inr (Some (unknown_api_quote 1))
   \<and> absent (JObject []) [''currentPrice'', ''current_price'', ''price'', ''ltp'', ''lastPrice'', ''close'']
   \<and> absent (JObject []) [''sector'', ''industry'']
   \<and> absent (JObject []) [''open'']
   \<and> id_field (unknown_quote 1) = (symbol (unknown_quote 1), 1)
   \<and> name (unknown_quote 1) = JString (lit ''Unknown'')
   \<and> price (unknown_quote 1) = Fin 0
   \<and> sector (unknown_quote 1) = JString []
   \<and> id_field (unknown_api_quote 1) = (symbol (unknown_api_quote 1), 1)
   \<and> price (unknown_api_quote 1) = Fin 0
   \<and> change (unknown_api_quote 1) = Fin 0
   \<and> open_field (unknown_api_quote 1) = Fin 0
   \<and> sector (unknown_api_quote 1) = JString []
   \<and> \<not> truthy JNull \<and> parseNum JNull = Fin 0 \<and> parseNumber JNull = Fin 0
   \<and> map_sum id (map_option (\<lambda>q. q\<lparr>id_field := (symbol q, 2)\<rparr>)) (parseStock 1 (JObject []))
       = parseStock 2 (JObject [])"
  using parseStock_pure_but_id[of 2 1 "JObject []" "unknown_quote 1" "unknown_api_quote 1" JNull]
  by (simp add: parseStock_empty normalizeStockData_empty absent_empty)

subsection \<open>Claim C10: the two role handlers of stockquest.js\<close>

lemma ready_roles: "captain ready = JString (lit ''A'')" "viceCaptain ready = JString (lit ''B'')"
  "toasts ready = []"
  by (simp_all add: ready_def fresh_def)

text \<open>
  Claim C10: \<open>setCaptain\<close> on the current vice-captain makes it captain and clears the
  vice-captain, showing the usual success toast only; \<open>setViceCaptain\<close> on the current
  captain shows an error toast and changes nothing else.
\<close>

theorem role_conflict_asymmetric:
  "(viceCaptain s = JString smb \<longrightarrow>
      captain (setCaptain smb s) = JString smb \<and> viceCaptain (setCaptain smb s) = JNull
      \<and> selectedStocks (setCaptain smb s) = selectedStocks s
      \<and> toasts (setCaptain smb s) = toasts s @ [(Captain_selected, T_success)])
   \<and> (captain s = JString smb \<longrightarrow>
      setViceCaptain smb s = showToast Captain_cannot_be_Vice_Captain T_error s
      \<and> captain (setViceCaptain smb s) = captain s
      \<and> viceCaptain (setViceCaptain smb s) = viceCaptain s)"
  by (simp add: setCaptain_def setViceCaptain_def Let_def ui_defs)

text \<open>The statement of the claim at concrete inputs, with its hypotheses discharged.\<close>

theorem role_conflict_asymmetric_witness:
  "viceCaptain ready = JString (lit ''B'')
   \<and> captain (setCaptain (lit ''B'') ready) = JString (lit ''B'')
   \<and> viceCaptain (setCaptain (lit ''B'') ready) = JNull
   \<and> toasts (setCaptain (lit ''B'') ready) = [(Captain_selected, T_success)]
   \<and> captain ready = JString (lit ''A'')
   \<and> setViceCaptain (lit ''A'') ready = showToast Captain_cannot_be_Vice_Captain T_error ready
   \<and> viceCaptain (setViceCaptain (lit ''A'') ready) = JString (lit ''B'')"
  using role_conflict_asymmetric[of ready "lit ''B''"] role_conflict_asymmetric[of ready "lit ''A''"]
  by (simp add: ready_roles showToast_def)

subsection \<open>Claim C5: capacity\<close>

lemma find_None_list_ex: "find P xs = None \<longleftrightarrow> \<not> list_ex P xs"
  by (auto simp: find_None_iff list_ex_iff)

lemma addStock_full:
  assumes "maxStocks \<le> length (selectedStocks s)"
  shows "addStock smb s =
     (if list_ex (has_symbol smb) (stocks s) \<or> list_ex (has_symbol smb) (filteredStocks s)
      then showToast Maximum_stocks_allowed T_error s else s)"
proof (cases "find (has_symbol smb) (stocks s)")
  case None
  then have n: "\<not> list_ex (has_symbol smb) (stocks s)" by (simp add: find_None_list_ex)
  show ?thesis
  proof (cases "find (has_symbol smb) (filteredStocks s)")
    case None
    then have "\<not> list_ex (has_symbol smb) (filteredStocks s)" by (simp add: find_None_list_ex)
    with n None \<open>find (has_symbol smb) (stocks s) = None\<close> show ?thesis
      by (simp add: addStock_def)
  next
    case (Some st)
    then have "list_ex (has_symbol smb) (filteredStocks s)"
      using find_None_list_ex[of "has_symbol smb" "filteredStocks s"] by simp
    with Some \<open>find (has_symbol smb) (stocks s) = None\<close> assms show ?thesis
      by (simp add: addStock_def)
  qed
next
  case (Some st)
  then have "list_ex (has_symbol smb) (stocks s)"
    using find_None_list_ex[of "has_symbol smb" "stocks s"] by simp
  with Some assms show ?thesis by (simp add: addStock_def)
qed

lemma addStock_sq_full:
  assumes "maxStocks \<le> length (selectedStocks s)"
  shows "addStock_sq smb s =
     (if list_ex (has_symbol smb) (stocks s)
      then showToast Maximum_stocks_allowed T_error s else s)"
proof (cases "find (has_symbol smb) (stocks s)")
  case None
  then have "\<not> list_ex (has_symbol smb) (stocks s)" by (simp add: find_None_list_ex)
  with None show ?thesis by (simp add: addStock_sq_def)
next
  case (Some st)
  then have "list_ex (has_symbol smb) (stocks s)"
    using find_None_list_ex[of "has_symbol smb" "stocks s"] by simp
  with Some assms show ?thesis by (simp add: addStock_sq_def)
qed

text \<open>
  Claim C5: in every reachable state of either implementation at most 11 stocks are
  selected. With 11 stocks selected \<open>addStock\<close> leaves the state as it is, apart from the
  toast \<open>Maximum 11 stocks allowed\<close> that it shows when the symbol is in the catalogue.
\<close>

theorem selection_at_most_eleven:
  "(reachable_app s \<longrightarrow> length (selectedStocks s) \<le> 11)
   \<and> (reachable_sq s \<longrightarrow> length (selectedStocks s) \<le> 11)
   \<and> (11 \<le> length (selectedStocks s) \<longrightarrow>
        addStock smb s =
          (if list_ex (has_symbol smb) (stocks s) \<or> list_ex (has_symbol smb) (filteredStocks s)
           then showToast Maximum_stocks_allowed T_error s else s)
        \<and> addStock_sq smb s =
          (if list_ex (has_symbol smb) (stocks s)
           then showToast Maximum_stocks_allowed T_error s else s))"
  using len_reachable_app[of s] len_reachable_sq[of s] addStock_full[of s smb] addStock_sq_full[of s smb]
  by (simp add: maxStocks_def)

lemma full_facts: "length (selectedStocks full) = 11" "list_ex (has_symbol (lit ''L'')) (stocks full)"
  by (simp_all add: full_def fresh_def eleven_def has_symbol_def mk_stock_def)

lemma fresh_initial: "initial fresh"
  by (simp add: initial_def fresh_def)

text \<open>The statement of the claim at concrete inputs, with its hypotheses discharged.\<close>

theorem selection_at_most_eleven_witness:
  "reachable_app (addStock (lit ''A'') fresh)
   \<and> length (selectedStocks (addStock (lit ''A'') fresh)) \<le> 11
   \<and> reachable_sq (addStock_sq (lit ''A'') fresh)
   \<and> length (selectedStocks (addStock_sq (lit ''A'') fresh)) \<le> 11
   \<and> 11 \<le> length (selectedStocks full)
   \<and> addStock (lit ''L'') full = showToast Maximum_stocks_allowed T_error full
   \<and> addStock_sq (lit ''L'') full = showToast Maximum_stocks_allowed T_error full"
  using selection_at_most_eleven[of "addStock (lit ''A'') fresh"]
    selection_at_most_eleven[of "addStock_sq (lit ''A'') fresh"]
    selection_at_most_eleven[of full "lit ''L''"]
    app_add[OF app_init[OF fresh_initial], of "lit ''A''"]
    sq_add[OF sq_init[OF fresh_initial], of "lit ''A''"]
  by (simp add: full_facts)

subsection \<open>Claim C6: add, then remove\<close>

lemma add_remove_fields:
  assumes no: "\<not> list_ex (has_symbol smb) (selectedStocks s)"
    and sel: "selectedStocks s1 = selectedStocks s \<or> (\<exists>st. has_symbol smb st \<and> selectedStocks s1 = selectedStocks s @ [st])"
  shows "case findIndex (has_symbol smb) (selectedStocks s1) of
           None \<Rightarrow> selectedStocks s1 = selectedStocks s
         | Some i \<Rightarrow> splice1 i (selectedStocks s1) = selectedStocks s"
  using sel
proof
  assume "selectedStocks s1 = selectedStocks s"
  then show ?thesis using no by (simp add: findIndex_None[symmetric])
next
  assume "\<exists>st. has_symbol smb st \<and> selectedStocks s1 = selectedStocks s @ [st]"
  then obtain st where "has_symbol smb st" "selectedStocks s1 = selectedStocks s @ [st]" by blast
  then show ?thesis using no by (simp add: findIndex_append_last splice1_last)
qed

lemma find_has_symbol: "find (has_symbol smb) xs = Some st \<Longrightarrow> has_symbol smb st"
  by (auto simp: find_Some_iff)

lemma addStock_pushes:
  "same_selection (addStock smb s) s
   \<or> (\<exists>st. has_symbol smb st \<and> selectedStocks (addStock smb s) = selectedStocks s @ [st]
        \<and> captain (addStock smb s) = captain s \<and> viceCaptain (addStock smb s) = viceCaptain s)"
proof (cases "case find (has_symbol smb) (stocks s) of Some st \<Rightarrow> Some st
                | None \<Rightarrow> find (has_symbol smb) (filteredStocks s)")
  case None
  then show ?thesis by (simp add: addStock_def same_selection_def)
next
  case (Some st)
  then have "has_symbol smb st" by (auto split: option.splits dest: find_has_symbol)
  then show ?thesis using Some by (auto simp: addStock_def ui_defs same_selection_def)
qed

lemma addStock_sq_pushes:
  "same_selection (addStock_sq smb s) s
   \<or> (\<exists>st. has_symbol smb st \<and> selectedStocks (addStock_sq smb s) = selectedStocks s @ [st]
        \<and> captain (addStock_sq smb s) = captain s \<and> viceCaptain (addStock_sq smb s) = viceCaptain s)"
proof (cases "find (has_symbol smb) (stocks s)")
  case None
  then show ?thesis by (simp add: addStock_sq_def same_selection_def)
next
  case (Some st)
  then have "has_symbol smb st" by (rule find_has_symbol)
  then show ?thesis using Some by (auto simp: addStock_sq_def ui_defs same_selection_def)
qed

lemma remove_after_add:
  assumes no: "\<not> list_ex (has_symbol smb) (selectedStocks s)"
    and c: "captain s \<noteq> JString smb" and v: "viceCaptain s \<noteq> JString smb"
    and s1: "same_selection s1 s
       \<or> (\<exists>st. has_symbol smb st \<and> selectedStocks s1 = selectedStocks s @ [st]
            \<and> captain s1 = captain s \<and> viceCaptain s1 = viceCaptain s)"
  shows "same_selection (removeStock smb s1) s \<and> same_selection (removeStock_sq smb s1) s"
proof -
  have roles: "captain s1 = captain s" "viceCaptain s1 = viceCaptain s"
    using s1 by (auto simp: same_selection_def)
  have sel: "selectedStocks s1 = selectedStocks s
     \<or> (\<exists>st. has_symbol smb st \<and> selectedStocks s1 = selectedStocks s @ [st])"
    using s1 by (auto simp: same_selection_def)
  show ?thesis
  proof (cases "findIndex (has_symbol smb) (selectedStocks s1)")
    case None
    then have "selectedStocks s1 = selectedStocks s"
      using add_remove_fields[OF no sel] by simp
    with None roles show ?thesis
      by (simp add: removeStock_def removeStock_sq_def same_selection_def)
  next
    case (Some i)
    then have "splice1 i (selectedStocks s1) = selectedStocks s"
      using add_remove_fields[OF no sel] by simp
    with roles c v show ?thesis
      by (simp add: removeStock_fields[OF Some] removeStock_sq_fields[OF Some] same_selection_def)
  qed
qed

text \<open>
  Claim C6: when the symbol is not selected and holds no role, \<open>addStock\<close> followed by
  \<open>removeStock\<close> of that symbol leaves the selected stocks, in their order, and both roles
  as they were.
\<close>

theorem add_then_remove_restores:
  assumes "\<not> list_ex (has_symbol smb) (selectedStocks s)"
    and "captain s \<noteq> JString smb" and "viceCaptain s \<noteq> JString smb"
  shows "same_selection (removeStock smb (addStock smb s)) s
         \<and> same_selection (removeStock_sq smb (addStock_sq smb s)) s"
  using remove_after_add[OF assms addStock_pushes] remove_after_add[OF assms addStock_sq_pushes]
  by simp

lemma ready_sel: "selectedStocks ready = five" "stocks ready = eleven @ [mk_stock ''L'' 100]"
  "filteredStocks ready = []"
  by (simp_all add: ready_def fresh_def)

lemma F_not_selected: "\<not> list_ex (has_symbol (lit ''F'')) (selectedStocks ready)"
  by (simp add: ready_sel five_def mk_stock_def has_symbol_def lit_def)

text \<open>The statement of the claim at concrete inputs, with its hypotheses discharged.\<close>

theorem add_then_remove_restores_witness:
  "\<not> list_ex (has_symbol (lit ''F'')) (selectedStocks ready)
   \<and> captain ready \<noteq> JString (lit ''F'') \<and> viceCaptain ready \<noteq> JString (lit ''F'')
   \<and> same_selection (removeStock (lit ''F'') (addStock (lit ''F'') ready)) ready
   \<and> same_selection (removeStock_sq (lit ''F'') (addStock_sq (lit ''F'') ready)) ready"
proof -
  have r: "captain ready \<noteq> JString (lit ''F'')" "viceCaptain ready \<noteq> JString (lit ''F'')"
    by (simp_all add: ready_roles lit_def)
  show ?thesis
    using add_then_remove_restores[OF F_not_selected r] F_not_selected r by simp
qed

lemma A_selected: "findIndex (has_symbol (lit ''A'')) (selectedStocks ready) = Some 0"
  "list_ex (has_symbol (lit ''A'')) (selectedStocks ready)"
  "find (has_symbol (lit ''A'')) (stocks ready) = Some (mk_stock ''A'' 100)"
  by (simp_all add: ready_sel five_def eleven_def mk_stock_def has_symbol_def)

lemma addStock_A: "addStock (lit ''A'') ready = showToast Stock_already_selected T_error ready"
  using A_selected by (simp add: addStock_def ready_sel five_def maxStocks_def)

text \<open>
  For a symbol that is already selected, adding changes nothing and removing then takes the
  stock out and clears its role.
\<close>

theorem add_then_remove_selected_symbol:
  "list_ex (has_symbol (lit ''A'')) (selectedStocks ready)
   \<and> length (selectedStocks (removeStock (lit ''A'') (addStock (lit ''A'') ready))) = 4
   \<and> length (selectedStocks ready) = 5
   \<and> captain (removeStock (lit ''A'') (addStock (lit ''A'') ready)) = JNull
   \<and> captain ready = JString (lit ''A'')
   \<and> \<not> same_selection (removeStock (lit ''A'') (addStock (lit ''A'') ready)) ready"
proof -
  let ?s = "showToast Stock_already_selected T_error ready"
  have i: "findIndex (has_symbol (lit ''A'')) (selectedStocks ?s) = Some 0"
    using A_selected(1) by (simp add: showToast_def)
  have sel: "selectedStocks (removeStock (lit ''A'') ?s) = splice1 0 five"
    using removeStock_fields(1)[OF i] by (simp add: showToast_def ready_sel)
  have cap: "captain (removeStock (lit ''A'') ?s) = JNull"
    using removeStock_fields(2)[OF i] by (simp add: showToast_def ready_roles)
  have len: "length (splice1 0 five) = 4" by (simp add: splice1_def five_def)
  show ?thesis
    using sel cap len A_selected(2)
    by (simp add: addStock_A ready_roles ready_sel same_selection_def five_def)
qed

subsection \<open>Claim C7: the submission gate\<close>

lemma start_pending:
  "snd (createPortfolio_start s) \<noteq> None \<Longrightarrow> canCreate s \<and> \<not> js_gt (totalCost s) (balance s)"
  using start_cases[of s] by (auto simp: canCreate_def)

lemma sq_stores:
  assumes "stockquest_portfolios (snd (createPortfolio_sq now created (s, ls))) \<noteq> stockquest_portfolios ls"
  shows "canCreate s \<and> \<not> js_gt (totalCost s) (balance s)"
proof (rule ccontr)
  assume "\<not> (canCreate s \<and> \<not> js_gt (totalCost s) (balance s))"
  then have "length (selectedStocks s) < minStocks \<or> \<not> truthy (captain s) \<or> \<not> truthy (viceCaptain s)
           \<or> js_gt (totalCost s) (balance s)"
    by (auto simp: canCreate_def)
  then have "createPortfolio_sq now created (s, ls) =
    (showToast (if length (selectedStocks s) < minStocks then Select_at_least_stocks
                else if \<not> truthy (captain s) then Please_select_a_Captain
                else if \<not> truthy (viceCaptain s) then Please_select_a_Vice_Captain
                else Insufficient_balance) T_error s, ls)"
    by (rule sq_reject)
  with assms show False by simp
qed

text \<open>
  Claim C7: with fewer than 5 stocks \<open>canCreate\<close> is false whatever the roles, and
  \<open>createPortfolio\<close> rejects with \<open>Select at least 5 stocks\<close>. \<open>canCreate\<close>, which enables
  the button, is true exactly when at least 5 stocks are selected and both roles are set;
  it does not look at the balance. \<open>createPortfolio\<close> gets past its guards (app.js: it
  reaches the store; stockquest.js: it stores a portfolio) only if moreover the total cost
  does not exceed the balance.
\<close>

theorem submission_gate:
  "(length (selectedStocks s) < 5 \<longrightarrow>
      \<not> canCreate s
      \<and> createPortfolio ok1 ok2 ok3 (s, d) = (showToast Select_at_least_stocks T_error s, d)
      \<and> createPortfolio_sq now created (s, ls) = (showToast Select_at_least_stocks T_error s, ls))
   \<and> (canCreate s \<longleftrightarrow>
        5 \<le> length (selectedStocks s) \<and> truthy (captain s) \<and> truthy (viceCaptain s))
   \<and> (snd (createPortfolio_start s) \<noteq> None \<longrightarrow>
        canCreate s \<and> \<not> js_gt (totalCost s) (balance s))
   \<and> (stockquest_portfolios (snd (createPortfolio_sq now created (s, ls))) \<noteq> stockquest_portfolios ls
        \<longrightarrow> canCreate s \<and> \<not> js_gt (totalCost s) (balance s))"
proof -
  have a: "length (selectedStocks s) < 5 \<longrightarrow>
      \<not> canCreate s
      \<and> createPortfolio ok1 ok2 ok3 (s, d) = (showToast Select_at_least_stocks T_error s, d)
      \<and> createPortfolio_sq now created (s, ls) = (showToast Select_at_least_stocks T_error s, ls)"
    by (simp add: canCreate_def createPortfolio_reject sq_reject minStocks_def)
  have b: "canCreate s \<longleftrightarrow>
        5 \<le> length (selectedStocks s) \<and> truthy (captain s) \<and> truthy (viceCaptain s)"
    by (simp add: canCreate_def minStocks_def)
  from a b start_pending[of s] sq_stores[of now created s ls] show ?thesis by blast
qed

lemma poor_facts:
  "minStocks \<le> length (selectedStocks poor)" "truthy (captain poor)" "truthy (viceCaptain poor)"
  "balance poor = Fin 100" "totalCost poor = Fin 5000" "canCreate poor"
  by (simp_all add: poor_def ready_def fresh_def five_def minStocks_def lit_def totalCost_def
        mk_stock_def canCreate_def)

lemma short_facts:
  "length (selectedStocks short) = 1" "truthy (captain short)" "truthy (viceCaptain short)"
  "balance short = Fin 1000000" "totalCost short = Fin 2000000" "toasts short = []"
  by (simp_all add: short_def ready_def fresh_def lit_def totalCost_def mk_stock_def)

text \<open>\<open>canCreate\<close> holds for a complete team that costs more than the balance.\<close>

theorem button_enabled_without_funds:
  "canCreate poor \<and> js_gt (totalCost poor) (balance poor)"
  by (simp add: poor_facts)

lemma ready_canCreate: "canCreate ready"
  using ready_facts by (simp add: canCreate_def)

text \<open>The statement of the claim at concrete inputs, with its hypotheses discharged.\<close>

theorem submission_gate_witness:
  "length (selectedStocks short) < 5
   \<and> \<not> canCreate short
   \<and> createPortfolio True True True (short, empty_db)
       = (showToast Select_at_least_stocks T_error short, empty_db)
   \<and> snd (createPortfolio_start ready) \<noteq> None
   \<and> canCreate ready \<and> \<not> js_gt (totalCost ready) (balance ready)
   \<and> stockquest_portfolios (snd (createPortfolio_sq 1 2 (ready, empty_storage)))
       \<noteq> stockquest_portfolios empty_storage"
proof -
  have p: "snd (createPortfolio_start ready) \<noteq> None"
    using start_pass[OF ready_facts(1-3) afford_ready ready_facts(4,5)] by simp
  have q: "stockquest_portfolios (snd (createPortfolio_sq 1 2 (ready, empty_storage)))
       \<noteq> stockquest_portfolios empty_storage"
    using sq_pass(2)[OF ready_facts(1-3) afford_ready, of 1 2 empty_storage]
    by (simp add: empty_storage_def)
  show ?thesis
    using submission_gate[of short True True True empty_db 1 2 empty_storage]
      submission_gate[of ready True True True empty_db 1 2 empty_storage] p q ready_facts(1-3)
    by (simp add: short_facts minStocks_def)
qed

subsection \<open>Claim C4: the invariant of the Selection\<close>

lemma distinct_reachable_sq: "reachable_sq s \<Longrightarrow> captain s = JNull \<or> captain s \<noteq> viceCaptain s"
proof (induction rule: reachable_sq.induct)
  case (sq_init s) then show ?case by (simp add: initial_def)
next
  case (sq_add s smb)
  then show ?case using addStock_sq_pushes[of smb s] by (auto simp: same_selection_def)
next
  case (sq_remove s smb)
  show ?case
  proof (cases "findIndex (has_symbol smb) (selectedStocks s)")
    case None with sq_remove show ?thesis by (simp add: removeStock_sq_def)
  next
    case (Some i) with sq_remove show ?thesis by (auto simp: removeStock_sq_fields[OF Some])
  qed
next
  case (sq_captain s smb) then show ?case by (simp add: setCaptain_fields)
next
  case (sq_vice s smb) then show ?case by (auto simp: setViceCaptain_fields)
next
  case (sq_clear s) then show ?case by (simp add: clearTeam_def ui_defs)
next
  case (sq_create s now created ls)
  then show ?case using sel_createPortfolio_sq[of now created s ls]
    by (auto simp: same_selection_def initial_def)
next
  case sq_env then show ?case by simp
qed

lemma remove_clears:
  assumes "list_ex (has_symbol smb) (selectedStocks s)"
  shows "captain (removeStock smb s) \<noteq> JString smb \<and> viceCaptain (removeStock smb s) \<noteq> JString smb
       \<and> captain (removeStock_sq smb s) \<noteq> JString smb \<and> viceCaptain (removeStock_sq smb s) \<noteq> JString smb"
proof -
  from assms obtain i where i: "findIndex (has_symbol smb) (selectedStocks s) = Some i"
    using findIndex_None[of "has_symbol smb" "selectedStocks s"] by auto
  show ?thesis by (simp add: removeStock_fields[OF i] removeStock_sq_fields[OF i])
qed

text \<open>
  Claim C4: captain and vice-captain are never the same symbol, in every reachable state of
  both implementations. A role that is set is the symbol of a selected stock in every
  reachable state of app.js, and of stockquest.js when \<open>setCaptain\<close> and \<open>setViceCaptain\<close>
  are called with the symbol of a selected stock. \<open>removeStock\<close> of a selected symbol
  leaves no role on that symbol.
\<close>

theorem selection_invariant:
  "(reachable_app s \<longrightarrow> selection_inv s)
   \<and> (reachable_sq_listed s \<longrightarrow> selection_inv s)
   \<and> (reachable_sq s \<longrightarrow> captain s = JNull \<or> captain s \<noteq> viceCaptain s)
   \<and> (list_ex (has_symbol smb) (selectedStocks s) \<longrightarrow>
        captain (removeStock smb s) \<noteq> JString smb \<and> viceCaptain (removeStock smb s) \<noteq> JString smb
        \<and> captain (removeStock_sq smb s) \<noteq> JString smb
        \<and> viceCaptain (removeStock_sq smb s) \<noteq> JString smb)"
  using inv_reachable_app[of s] inv_reachable_sq_listed[of s] distinct_reachable_sq[of s]
    remove_clears[of smb s]
  by blast

lemma setCaptain_X_fresh:
  "selectedStocks (setCaptain (lit ''X'') fresh) = []" "captain (setCaptain (lit ''X'') fresh) = JString (lit ''X'')"
  by (simp_all add: setCaptain_fields fresh_def)

text \<open>
  \<open>setCaptain\<close> of stockquest.js does not look at the selection: called on a fresh page it
  makes captain a symbol that is not selected.
\<close>

theorem captain_outside_selection:
  "reachable_sq (setCaptain (lit ''X'') fresh)
   \<and> captain (setCaptain (lit ''X'') fresh) = JString (lit ''X'')
   \<and> selectedStocks (setCaptain (lit ''X'') fresh) = []
   \<and> \<not> selection_inv (setCaptain (lit ''X'') fresh)"
  using sq_captain[OF sq_init[OF fresh_initial], of "lit ''X''"]
  by (simp add: setCaptain_X_fresh selection_inv_def role_selected_def)

lemma addStock_sq_A_fresh:
  "selectedStocks (addStock_sq (lit ''A'') fresh) = [mk_stock ''A'' 100]"
  by (simp add: addStock_sq_def fresh_def eleven_def mk_stock_def has_symbol_def maxStocks_def ui_defs)

lemma addStock_A_fresh:
  "selectedStocks (addStock (lit ''A'') fresh) = [mk_stock ''A'' 100]"
  by (simp add: addStock_def fresh_def eleven_def mk_stock_def has_symbol_def maxStocks_def ui_defs)

text \<open>The statement of the claim at concrete inputs, with its hypotheses discharged.\<close>

theorem selection_invariant_witness:
  "reachable_app (selectCaptain (addStock (lit ''A'') fresh))
   \<and> selection_inv (selectCaptain (addStock (lit ''A'') fresh))
   \<and> reachable_sq_listed (setCaptain (lit ''A'') (addStock_sq (lit ''A'') fresh))
   \<and> selection_inv (setCaptain (lit ''A'') (addStock_sq (lit ''A'') fresh))
   \<and> reachable_sq (setCaptain (lit ''X'') fresh)
   \<and> captain (setCaptain (lit ''X'') fresh) \<noteq> viceCaptain (setCaptain (lit ''X'') fresh)
   \<and> list_ex (has_symbol (lit ''A'')) (selectedStocks ready)
   \<and> captain (removeStock (lit ''A'') ready) \<noteq> JString (lit ''A'')
   \<and> captain (removeStock_sq (lit ''A'') ready) = JNull"
proof -
  have l: "list_ex (has_symbol (lit ''A'')) (selectedStocks (addStock_sq (lit ''A'') fresh))"
    by (simp add: addStock_sq_A_fresh has_symbol_def mk_stock_def)
  have r1: "reachable_app (selectCaptain (addStock (lit ''A'') fresh))"
    by (intro app_captain app_add app_init fresh_initial)
  have r2: "reachable_sq_listed (setCaptain (lit ''A'') (addStock_sq (lit ''A'') fresh))"
    by (intro sql_captain sql_add sql_init fresh_initial l)
  have r3: "reachable_sq (setCaptain (lit ''X'') fresh)"
    by (intro sq_captain sq_init fresh_initial)
  have c: "captain (removeStock_sq (lit ''A'') ready) = JNull"
    using removeStock_sq_fields(2)[OF A_selected(1)] by (simp add: ready_roles)
  show ?thesis
    using selection_invariant[of "selectCaptain (addStock (lit ''A'') fresh)"]
      selection_invariant[of "setCaptain (lit ''A'') (addStock_sq (lit ''A'') fresh)"]
      selection_invariant[of "setCaptain (lit ''X'') fresh"]
      selection_invariant[of ready "lit ''A''"]
      r1 r2 r3 c A_selected(2)
    by (simp add: setCaptain_X_fresh)
qed

lemma createPortfolio_success:
  assumes "minStocks \<le> length (selectedStocks s)" "truthy (captain s)" "truthy (viceCaptain s)"
    "\<not> js_gt (totalCost s) (balance s)" "user s = Some u" "window_Database s"
  shows "balance (fst (createPortfolio True True True (s, d))) = js_sub (balance s) (totalCost s)"
    and "length (db_portfolios (snd (createPortfolio True True True (s, d)))) = length (db_portfolios d) + 1"
    and "selectedStocks (fst (createPortfolio True True True (s, d))) = []"
  using assms
  by (simp_all add: createPortfolio_def start_pass[OF assms] resume_create resume_user
        resume_board ui_defs)

subsection \<open>Claim C2: insufficient funds\<close>

lemma amid_alone: "createPortfolio_amid (\<lambda>w. w) (\<lambda>w. w) (\<lambda>w. w) ok1 ok2 ok3 w = createPortfolio ok1 ok2 ok3 w"
  by (simp add: createPortfolio_amid_def createPortfolio_def)

lemma amid_reject:
  assumes "length (selectedStocks s) < minStocks \<or> \<not> truthy (captain s) \<or> \<not> truthy (viceCaptain s)
           \<or> js_gt (totalCost s) (balance s)"
  shows "createPortfolio_amid e1 e2 e3 ok1 ok2 ok3 (s, d) =
    (showToast (if length (selectedStocks s) < minStocks then Select_at_least_stocks
                else if \<not> truthy (captain s) then Please_select_a_Captain
                else if \<not> truthy (viceCaptain s) then Please_select_a_Vice_Captain
                else Insufficient_balance) T_error s, d)"
  by (simp add: createPortfolio_amid_def start_reject[OF assms])

lemma keeps_balanceD: "keeps_balance e \<Longrightarrow> e (s, d) = (s', d') \<Longrightarrow> balance s' = balance s"
  unfolding keeps_balance_def by (metis fst_conv)

lemma balance_amid:
  assumes k: "keeps_balance e1" "keeps_balance e2" "keeps_balance e3"
  shows "balance (fst (createPortfolio_amid e1 e2 e3 ok1 ok2 ok3 (s, d))) = balance s
   \<or> (\<not> js_gt (totalCost s) (balance s)
       \<and> balance (fst (createPortfolio_amid e1 e2 e3 ok1 ok2 ok3 (s, d))) = js_sub (balance s) (totalCost s))"
proof -
  consider (rej) m where "createPortfolio_start s = (showToast m T_error s, None)"
    | (pass) t where "\<not> js_gt (totalCost s) (balance s)" "createPortfolio_start s = (s, Some t)"
        "totalCost_const t = totalCost s" "\<exists>u pd. awaiting t = CreatePortfolio u pd"
    using start_cases[of s] by blast
  then show ?thesis
  proof cases
    case rej
    then show ?thesis by (simp add: createPortfolio_amid_def showToast_def)
  next
    case pass
    obtain s1 d1 where e1: "e1 (s, d) = (s1, d1)" by force
    have b1: "balance s1 = balance s" using keeps_balanceD[OF k(1) e1] .
    obtain s2 d2 t2 where r1: "createPortfolio_resume ok1 t (s1, d1) = ((s2, d2), t2)"
      by (metis surj_pair)
    have b2: "balance s2 = (if ok1 then js_sub (balance s) (totalCost s) else balance s)"
      using resume_balance[of ok1 t s1 d1] r1 pass(3,4) b1 by auto
    show ?thesis
    proof (cases t2)
      case None
      then have "createPortfolio_amid e1 e2 e3 ok1 ok2 ok3 (s, d) = (s2, d2)"
        using pass(2) e1 r1 by (simp add: createPortfolio_amid_def)
      then show ?thesis using b2 pass(1) by auto
    next
      case (Some t2')
      have k2: "\<not> (\<exists>u pd. awaiting t2' = CreatePortfolio u pd)"
        using resume_task[of ok1 t "(s1, d1)" t2'] r1 Some pass(4) by auto
      obtain s2' d2' where e2: "e2 (s2, d2) = (s2', d2')" by force
      have b2': "balance s2' = balance s2"
        using keeps_balanceD[OF k(2) e2] .
      obtain s3 d3 t3 where r2: "createPortfolio_resume ok2 t2' (s2', d2') = ((s3, d3), t3)"
        by (metis surj_pair)
      have b3: "balance s3 = balance s2"
        using resume_balance[of ok2 t2' s2' d2'] r2 k2 b2' by auto
      show ?thesis
      proof (cases t3)
        case None
        then have "createPortfolio_amid e1 e2 e3 ok1 ok2 ok3 (s, d) = (s3, d3)"
          using pass(2) e1 e2 r1 r2 Some by (simp add: createPortfolio_amid_def)
        then show ?thesis using b2 b3 pass(1) by auto
      next
        case (Some t3')
        have k3: "\<not> (\<exists>u pd. awaiting t3' = CreatePortfolio u pd)"
          using resume_task[of ok2 t2' "(s2', d2')" t3'] r2 Some by auto
        obtain s3' d3' where e3: "e3 (s3, d3) = (s3', d3')" by force
        have b3': "balance s3' = balance s3"
          using keeps_balanceD[OF k(3) e3] .
        have b4: "balance (fst (fst (createPortfolio_resume ok3 t3' (s3', d3')))) = balance s3"
          using resume_balance[of ok3 t3' s3' d3'] k3 b3' by auto
        have "createPortfolio_amid e1 e2 e3 ok1 ok2 ok3 (s, d)
              = fst (createPortfolio_resume ok3 t3' (s3', d3'))"
          using pass(2) e1 e2 e3 r1 r2 \<open>t2 = Some t2'\<close> Some by (simp add: createPortfolio_amid_def)
        then show ?thesis using b2 b3 b4 pass(1) by auto
      qed
    qed
  qed
qed

lemma never_negative_amid:
  "keeps_balance e1 \<Longrightarrow> keeps_balance e2 \<Longrightarrow> keeps_balance e3 \<Longrightarrow> \<not> js_lt (balance s) (Fin 0) \<Longrightarrow>
   \<not> js_lt (balance (fst (createPortfolio_amid e1 e2 e3 ok1 ok2 ok3 (s, d)))) (Fin 0)"
  using balance_amid[of e1 e2 e3 ok1 ok2 ok3 s d] never_negative_sub by metis

lemma amid_balance_replaced:
  assumes "minStocks \<le> length (selectedStocks s)" "truthy (captain s)" "truthy (viceCaptain s)"
    "\<not> js_gt (totalCost s) (balance s)" "user s = Some u" "window_Database s"
  shows "balance (fst (createPortfolio_amid (balance_arrives b) (\<lambda>w. w) (\<lambda>w. w) True True True (s, d)))
         = js_sub b (totalCost s)"
  using assms
  by (simp add: createPortfolio_amid_def start_pass[OF assms] balance_arrives_def resume_create
        resume_user resume_board ui_defs)

lemma pricey_initial: "initial pricey"
  by (simp add: pricey_def fresh_def initial_def)

lemma one_stock_facts:
  "selectedStocks (addStock (lit ''M'') pricey) = [mk_stock ''M'' 2000000]"
  "balance (addStock (lit ''M'') pricey) = Fin 1000000"
  "toasts (addStock (lit ''M'') pricey) = [(Added (JString (lit ''M'')), T_success)]"
  by (simp_all add: addStock_def pricey_def fresh_def mk_stock_def has_symbol_def maxStocks_def ui_defs)

lemma one_stock_cost: "totalCost (addStock (lit ''M'') pricey) = Fin 20000000"
  by (simp add: totalCost_def one_stock_facts mk_stock_def)

lemma balance_addStock: "balance (addStock smb s) = balance s"
  by (simp add: addStock_def ui_defs split: option.split)

lemma keeps_balance_add: "keeps_balance (\<lambda>w. (addStock smb (fst w), snd w))"
  by (simp add: keeps_balance_def balance_addStock)

lemma keeps_balance_idle: "keeps_balance (\<lambda>w. w)"
  by (simp add: keeps_balance_def)

text \<open>
  Claim C2: when the total cost exceeds the balance, \<open>createPortfolio\<close> changes nothing but
  the toasts, in the state and in the store, whatever else happens meanwhile. It shows one
  error toast: \<open>Insufficient balance\<close> for a team of at least 5 stocks with both roles
  set, and the toast of the first failing guard otherwise. A submission never takes a
  balance that is not below zero below zero, provided that nothing else assigns the
  balance while it waits for the store (in stockquest.js it never waits).
\<close>

theorem insufficient_funds_blocked:
  "(js_gt (totalCost s) (balance s) \<longrightarrow>
      createPortfolio ok1 ok2 ok3 (s, d) =
        (showToast (if length (selectedStocks s) < 5 then Select_at_least_stocks
                    else if \<not> truthy (captain s) then Please_select_a_Captain
                    else if \<not> truthy (viceCaptain s) then Please_select_a_Vice_Captain
                    else Insufficient_balance) T_error s, d)
      \<and> createPortfolio_amid e1 e2 e3 ok1 ok2 ok3 (s, d) =
        (showToast (if length (selectedStocks s) < 5 then Select_at_least_stocks
                    else if \<not> truthy (captain s) then Please_select_a_Captain
                    else if \<not> truthy (viceCaptain s) then Please_select_a_Vice_Captain
                    else Insufficient_balance) T_error s, d)
      \<and> createPortfolio_sq now created (s, ls) =
        (showToast (if length (selectedStocks s) < 5 then Select_at_least_stocks
                    else if \<not> truthy (captain s) then Please_select_a_Captain
                    else if \<not> truthy (viceCaptain s) then Please_select_a_Vice_Captain
                    else Insufficient_balance) T_error s, ls))
   \<and> (\<not> js_lt (balance s) (Fin 0) \<longrightarrow>
        (keeps_balance e1 \<and> keeps_balance e2 \<and> keeps_balance e3 \<longrightarrow>
           \<not> js_lt (balance (fst (createPortfolio_amid e1 e2 e3 ok1 ok2 ok3 (s, d)))) (Fin 0))
        \<and> \<not> js_lt (balance (fst (createPortfolio ok1 ok2 ok3 (s, d)))) (Fin 0)
        \<and> \<not> js_lt (balance (fst (createPortfolio_sq now created (s, ls)))) (Fin 0))"
  using createPortfolio_reject[of s ok1 ok2 ok3 d] amid_reject[of s e1 e2 e3 ok1 ok2 ok3 d]
    sq_reject[of s now created ls]
    never_negative_amid[of e1 e2 e3 s ok1 ok2 ok3 d]
    never_negative_app[of s ok1 ok2 ok3 d] never_negative_sq[of s now created ls]
  by (simp add: minStocks_def)

text \<open>
  On a page reached by adding one stock that costs more than the balance, the error
  reported is \<open>Select at least 5 stocks\<close>. And when the balance of the account document
  arrives during the first wait of a submission that passed the guards, the debit takes
  the balance below zero.
\<close>

theorem rejected_as_incomplete_team:
  "reachable_app (addStock (lit ''M'') pricey)
   \<and> js_gt (totalCost (addStock (lit ''M'') pricey)) (balance (addStock (lit ''M'') pricey))
   \<and> toasts (fst (createPortfolio True True True (addStock (lit ''M'') pricey, empty_db)))
       = [(Added (JString (lit ''M'')), T_success), (Select_at_least_stocks, T_error)]
   \<and> toasts (fst (createPortfolio_sq 1 2 (addStock (lit ''M'') pricey, empty_storage)))
       = [(Added (JString (lit ''M'')), T_success), (Select_at_least_stocks, T_error)]
   \<and> \<not> js_lt (balance ready) (Fin 0)
   \<and> balance (fst (createPortfolio_amid (balance_arrives (Fin 0)) (\<lambda>w. w) (\<lambda>w. w)
         True True True (ready, empty_db))) = Fin (- 5000)
   \<and> js_lt (balance (fst (createPortfolio_amid (balance_arrives (Fin 0)) (\<lambda>w. w) (\<lambda>w. w)
         True True True (ready, empty_db)))) (Fin 0)"
proof -
  have r: "reachable_app (addStock (lit ''M'') pricey)"
    by (intro app_add app_init pricey_initial)
  have l: "length (selectedStocks (addStock (lit ''M'') pricey)) < minStocks"
    by (simp add: one_stock_facts minStocks_def)
  have b: "balance (fst (createPortfolio_amid (balance_arrives (Fin 0)) (\<lambda>w. w) (\<lambda>w. w)
         True True True (ready, empty_db))) = Fin (- 5000)"
    using amid_balance_replaced[OF ready_facts(1-3) afford_ready ready_facts(4,5), of "Fin 0" empty_db]
    by (simp add: tc_ready js_sub_def)
  show ?thesis
    using r b createPortfolio_reject[of "addStock (lit ''M'') pricey" True True True empty_db]
      sq_reject[of "addStock (lit ''M'') pricey" 1 2 empty_storage] l
    by (simp add: one_stock_facts one_stock_cost showToast_def ready_facts js_lt_def)
qed

text \<open>The statement of the claim at concrete inputs, with its hypotheses discharged.\<close>

theorem insufficient_funds_blocked_witness:
  "js_gt (totalCost poor) (balance poor)
   \<and> createPortfolio True True True (poor, empty_db)
       = (showToast Insufficient_balance T_error poor, empty_db)
   \<and> createPortfolio_amid (\<lambda>w. (addStock (lit ''F'') (fst w), snd w)) (\<lambda>w. w) (\<lambda>w. w)
         True True True (poor, empty_db)
       = (showToast Insufficient_balance T_error poor, empty_db)
   \<and> createPortfolio_sq 1 2 (poor, empty_storage)
       = (showToast Insufficient_balance T_error poor, empty_storage)
   \<and> \<not> js_lt (balance ready) (Fin 0)
   \<and> keeps_balance (\<lambda>w. (addStock (lit ''F'') (fst w), snd w))
   \<and> keeps_balance (\<lambda>w. w)
   \<and> \<not> js_lt (balance (fst (createPortfolio_amid (\<lambda>w. (addStock (lit ''F'') (fst w), snd w))
          (\<lambda>w. w) (\<lambda>w. w) True True True (ready, empty_db)))) (Fin 0)
   \<and> balance (fst (createPortfolio True True True (ready, empty_db))) = Fin 995000
   \<and> \<not> js_lt (balance (fst (createPortfolio True True True (ready, empty_db)))) (Fin 0)
   \<and> \<not> js_lt (balance (fst (createPortfolio_sq 1 2 (ready, empty_storage)))) (Fin 0)"
proof -
  have b: "balance (fst (createPortfolio True True True (ready, empty_db))) = Fin 995000"
    using createPortfolio_success(1)[OF ready_facts(1-3) afford_ready ready_facts(4,5)]
    by (simp add: tc_ready ready_facts js_sub_def)
  have n: "\<not> js_lt (balance ready) (Fin 0)" by (simp add: ready_facts js_lt_def)
  show ?thesis
    using insufficient_funds_blocked[of poor True True True empty_db
            "\<lambda>w. (addStock (lit ''F'') (fst w), snd w)" "\<lambda>w. w" "\<lambda>w. w" 1 2 empty_storage]
      insufficient_funds_blocked[of ready True True True empty_db
            "\<lambda>w. (addStock (lit ''F'') (fst w), snd w)" "\<lambda>w. w" "\<lambda>w. w" 1 2 empty_storage]
      b n poor_facts(1-3) keeps_balance_add[of "lit ''F''"] keeps_balance_idle
    by (simp add: poor_facts(4,5) minStocks_def)
qed

subsection \<open>Claim C3: a double click\<close>

lemma second_after_first:
  "length (db_portfolios (snd (createPortfolio True True True
      (createPortfolio True True True (ready, empty_db))))) = 1"
proof -
  obtain s1 d1 where w: "createPortfolio True True True (ready, empty_db) = (s1, d1)"
    by force
  have e: "selectedStocks s1 = []" "length (db_portfolios d1) = 1"
    using createPortfolio_success(2,3)[OF ready_facts(1-3) afford_ready ready_facts(4,5), of empty_db] w
    by (simp_all add: empty_db_def)
  then have "length (selectedStocks s1) < minStocks" by (simp add: minStocks_def)
  then have "createPortfolio True True True (s1, d1) = (showToast Select_at_least_stocks T_error s1, d1)"
    using createPortfolio_reject[of s1 True True True d1] by simp
  with w e show ?thesis by simp
qed

text \<open>
  Claim C3: \<open>createPortfolio\<close> of app.js changes neither the state nor the button before its
  first \<open>await\<close>, so a second invocation that starts while the first one waits passes the
  same guards. For the team \<open>ready\<close> two portfolio documents are written and the balance is
  debited twice. A second invocation that starts after the first has finished is rejected,
  and one document is written.
\<close>

theorem double_click_creates_two_portfolios:
  "fst (createPortfolio_start ready) = ready
   \<and> snd (createPortfolio_start ready) \<noteq> None
   \<and> createBtnDisabled ready = False
   \<and> length (db_portfolios (snd (double_click (ready, empty_db)))) = 2
   \<and> balance (fst (double_click (ready, empty_db))) = Fin 990000
   \<and> length (db_portfolios (snd (createPortfolio True True True
        (createPortfolio True True True (ready, empty_db))))) = 1"
  using double_click_effect[OF ready_facts(1-3) afford_ready ready_facts(4,5), of empty_db]
    start_pass[OF ready_facts(1-3) afford_ready ready_facts(4,5)] second_after_first
  by (simp add: tc_ready ready_facts js_sub_def empty_db_def)

end
